theory Spec2Isabelle
  imports Main
begin

section \<open>Python strings\<close>

text \<open>
  A Python \<open>str\<close> is modelled as a \<open>string\<close> with one \<open>char\<close> per code point, which
  covers the texts whose code points are below 256. The character classes below are
  those of Python on that range.
\<close>

definition py_isspace :: "char \<Rightarrow> bool" where
  \<comment> \<open>the characters \<open>str.strip()\<close> and \<open>str.split()\<close> treat as whitespace\<close>
  "py_isspace c = (c \<in> {CHR 0x09, CHR 0x0A, CHR 0x0B, CHR 0x0C, CHR 0x0D,
                         CHR 0x1C, CHR 0x1D, CHR 0x1E, CHR 0x1F, CHR 0x20,
                         CHR 0x85, CHR 0xA0})"

definition py_lstrip :: "string \<Rightarrow> string" where
  "py_lstrip s = dropWhile py_isspace s"

definition py_rstrip :: "string \<Rightarrow> string" where
  "py_rstrip s = rev (dropWhile py_isspace (rev s))"

definition py_strip :: "string \<Rightarrow> string" where
  "py_strip s = py_rstrip (py_lstrip s)"

definition startswith :: "string \<Rightarrow> string \<Rightarrow> bool" where
  "startswith s p = (take (length p) s = p)"

fun py_contains :: "string \<Rightarrow> string \<Rightarrow> bool" where
  \<comment> \<open>\<open>s.find(sub) != -1\<close>\<close>
  "py_contains [] sub = (sub = [])"
| "py_contains (c # cs) sub = (startswith (c # cs) sub \<or> py_contains cs sub)"

function py_replace :: "string \<Rightarrow> string \<Rightarrow> string \<Rightarrow> string" where
  \<comment> \<open>\<open>s.replace(old, new)\<close>: every non-overlapping occurrence, left to right\<close>
  "py_replace old new [] = (if old = [] then new else [])"
| "py_replace old new (c # cs) =
     (if old = [] then new @ c # py_replace old new cs
      else if startswith (c # cs) old
        then new @ py_replace old new (drop (length old) (c # cs))
      else c # py_replace old new cs)"
  by pat_completeness auto
termination
  by (relation "measure (\<lambda>(old, new, s). length s)") auto

fun split_ws :: "string \<Rightarrow> string \<Rightarrow> string list" where
  "split_ws cur [] = (if cur = [] then [] else [cur])"
| "split_ws cur (c # cs) =
     (if py_isspace c then (if cur = [] then split_ws [] cs else cur # split_ws [] cs)
      else split_ws (cur @ [c]) cs)"

definition py_split :: "string \<Rightarrow> string list" where
  \<comment> \<open>\<open>s.split()\<close>: the maximal runs of non-whitespace characters\<close>
  "py_split s = split_ws [] s"

fun split_on :: "char \<Rightarrow> string \<Rightarrow> string \<Rightarrow> string list" where
  \<comment> \<open>\<open>s.split(sep)\<close> for a one-character separator\<close>
  "split_on sep cur [] = [cur]"
| "split_on sep cur (c # cs) =
     (if c = sep then cur # split_on sep [] cs else split_on sep (cur @ [c]) cs)"

fun py_join :: "string \<Rightarrow> string list \<Rightarrow> string" where
  "py_join sep [] = []"
| "py_join sep [x] = x"
| "py_join sep (x # y # ys) = x @ sep @ py_join sep (y # ys)"

definition lower_char :: "char \<Rightarrow> char" where
  \<comment> \<open>\<open>A\<close>..\<open>Z\<close> and the upper-case letters 0xC0..0xDE (without 0xD7) move up by 32\<close>
  "lower_char c =
     (let n = (of_char c :: nat) in
      if (65 \<le> n \<and> n \<le> 90) \<or> (192 \<le> n \<and> n \<le> 222 \<and> n \<noteq> 215)
      then char_of (n + 32) else c)"

definition py_lower :: "string \<Rightarrow> string" where
  "py_lower s = map lower_char s"

definition is_ascii_digit :: "char \<Rightarrow> bool" where
  "is_ascii_digit c = (let n = (of_char c :: nat) in 48 \<le> n \<and> n \<le> 57)"

definition py_isdigit :: "string \<Rightarrow> bool" where
  \<comment> \<open>\<open>s.isdigit()\<close>: non-empty, every character a digit; below 256 the digits are
      \<open>0\<close>..\<open>9\<close> and the superscripts 0xB2, 0xB3, 0xB9\<close>
  "py_isdigit s =
     (s \<noteq> [] \<and> list_all (\<lambda>c. is_ascii_digit c \<or> c \<in> {CHR 0xB2, CHR 0xB3, CHR 0xB9}) s)"

subsection \<open>Integers from and to text\<close>

definition int_isspace :: "char \<Rightarrow> bool" where
  \<comment> \<open>the whitespace \<open>int()\<close> accepts around a literal: the control characters
      0x1C..0x1F are whitespace for \<open>strip\<close> but not here\<close>
  "int_isspace c = (c \<in> {CHR 0x09, CHR 0x0A, CHR 0x0B, CHR 0x0C, CHR 0x0D, CHR 0x20,
                          CHR 0x85, CHR 0xA0})"

fun parse_digits :: "int \<Rightarrow> bool \<Rightarrow> string \<Rightarrow> int option" where
  \<comment> \<open>decimal digits, a single underscore allowed between two digits; the flag says
      that the previous character was a digit\<close>
  "parse_digits acc ld [] = (if ld then Some acc else None)"
| "parse_digits acc ld (c # cs) =
     (if is_ascii_digit c then parse_digits (10 * acc + (int (of_char c) - 48)) True cs
      else if c = CHR ''_'' \<and> ld then parse_digits acc False cs
      else None)"

definition py_int :: "string \<Rightarrow> int option" where
  \<comment> \<open>\<open>int(s)\<close> in base 10; \<open>None\<close> stands for the \<open>ValueError\<close>\<close>
  "py_int s =
     (case rev (dropWhile int_isspace (rev (dropWhile int_isspace s))) of
        [] \<Rightarrow> None
      | c # cs \<Rightarrow>
          if c = CHR ''-'' then map_option uminus (parse_digits 0 False cs)
          else if c = CHR ''+'' then parse_digits 0 False cs
          else parse_digits 0 False (c # cs))"

fun str_nat :: "nat \<Rightarrow> string" where
  "str_nat n = (if n < 10 then [char_of (48 + n)] else str_nat (n div 10) @ [char_of (48 + n mod 10)])"

definition str_int :: "int \<Rightarrow> string" where
  \<comment> \<open>\<open>str(n)\<close>, also what \<open>'%d' % n\<close> prints\<close>
  "str_int n = (if n < 0 then CHR ''-'' # str_nat (nat (- n)) else str_nat (nat n))"

subsection \<open>Random draws\<close>

definition randint :: "int \<Rightarrow> int \<Rightarrow> nat \<Rightarrow> int option" where
  \<comment> \<open>\<open>random.randint(lo, hi)\<close>: the generator's raw draw \<open>r\<close> is an input; every value
      of \<open>lo..hi\<close> comes from some draw. An empty range raises \<open>ValueError\<close> (\<open>None\<close>).\<close>
  "randint lo hi r = (if hi < lo then None else Some (lo + int (r mod nat (hi - lo + 1))))"


section \<open>Exceptions\<close>

text \<open>
  Modelled from the spec: the module \<open>exceptions\<close> is not among the sources. The spec
  names a permissions error, a "helpful" configuration error and an extraction failure as
  the application-level failures whose message is sent to the channel, and restart and
  terminate requests as control signals. An application-level failure carries the message
  it was raised with and its \<open>expire_in\<close>; the router raises \<open>PermissionsError\<close> and
  catches it under \<open>CommandError\<close>, so it is one of the reported classes.
  The other constructors are Python's and the chat library's exceptions;
  \<open>FormatNotModelled\<close> marks a format string outside the part of \<open>str.format\<close>
  modelled below.
\<close>

datatype error =
    ValueError
  | IndexError
  | KeyError
  | TypeError
  | AttributeError
  | UnboundLocalError
  | FormatNotModelled
  | Forbidden
  | NotFound
  | HTTPException
  | CommandError string int
  | PermissionsError string int
  | HelpfulError string int
  | ExtractionError string int
  | RestartSignal
  | TerminateSignal

fun reported :: "error \<Rightarrow> (string \<times> string \<times> int) option" where
  \<comment> \<open>class, \<open>message\<close> and \<open>expire_in\<close> of the exceptions of the first \<open>except\<close> clause\<close>
  "reported (CommandError m x) = Some (''CommandError'', m, x)"
| "reported (PermissionsError m x) = Some (''PermissionsError'', m, x)"
| "reported (HelpfulError m x) = Some (''HelpfulError'', m, x)"
| "reported (ExtractionError m x) = Some (''ExtractionError'', m, x)"
| "reported _ = None"

fun is_signal :: "error \<Rightarrow> bool" where
  "is_signal RestartSignal = True"
| "is_signal TerminateSignal = True"
| "is_signal _ = False"

section \<open>The reply object, the chat objects and the bot\<close>

abbreviation nl :: string where
  "nl \<equiv> [CHR 0x0A]"

record Response =
  content :: string
  reply :: bool
  delete_after :: int

definition Response :: "string \<Rightarrow> bool \<Rightarrow> int \<Rightarrow> Response" where
  \<comment> \<open>\<open>Response(content, reply=False, delete_after=0)\<close>\<close>
  "Response c r d = \<lparr>content = c, reply = r, delete_after = d\<rparr>"

record user =
  uid :: string
  uname :: string
  ubot :: bool
  mention :: string

record channel =
  cid :: string
  cname :: string
  is_private :: bool

record server =
  sid :: string
  s_members :: "user list"
  s_channels :: "channel list"

record message =
  m_id :: nat
  m_content :: string
  m_author :: user
  m_channel :: channel
  m_server :: "server option"
  m_raw_mentions :: "string list"
  m_raw_channel_mentions :: "string list"

definition get_member :: "server \<Rightarrow> string \<Rightarrow> user option" where
  "get_member srv i = find (\<lambda>u. uid u = i) (s_members srv)"

definition get_channel :: "server \<Rightarrow> string \<Rightarrow> channel option" where
  "get_channel srv i = find (\<lambda>c. cid c = i) (s_channels srv)"

record config =
  command_prefix :: string
  owner_id :: string
  bound_channels :: "string set"
  delete_messages :: bool
  delete_invoking :: bool
  debug_mode :: bool

text \<open>
  Modelled from the spec: the module \<open>permissions\<close> is not among the sources. A
  permission set holds a command whitelist, a command blacklist and the group label used
  in error messages.
\<close>

record permission_group =
  name :: string
  command_whitelist :: "string set"
  command_blacklist :: "string set"

subsection \<open>Handlers as the router sees them\<close>

record param =
  p_name :: string
  p_default :: "string option"
    \<comment> \<open>\<open>None\<close> is \<open>inspect.Parameter.empty\<close>; a default is kept as its \<open>str()\<close>\<close>

datatype arg =
    AMessage message
  | AChannel channel
  | AUser user
  | AServer "server option"
  | APermissions permission_group
  | AUsers "user option list"
  | AChannels "channel option list"
  | ArgsRef
  | ATokens "string list"
  | AToken string

text \<open>
  \<open>ArgsRef\<close> is a reference to the one list object \<open>args\<close> of a dispatch: the router
  stores the list itself under \<open>leftover_args\<close>, not a copy. \<open>ATokens\<close> is what such a
  reference holds when the handler is called.
\<close>

datatype event =
    Printed string
  | SendMessage channel string
  | Scheduled message "int option"
  | Invoked string "(string \<times> arg) list"
  | PrintedTraceback error
  | HandlerEffect string

text \<open>
  The trace of a dispatch: \<open>SendMessage dest text\<close> is a call of the library's
  \<open>send_message\<close>, \<open>Scheduled m after\<close> is
  \<open>asyncio.ensure_future(self._wait_delete_msg(m, after))\<close>, \<open>Invoked command kwargs\<close> is
  the call \<open>handler(**handler_kwargs)\<close>.
\<close>

record handler =
  h_params :: "param list"
    \<comment> \<open>\<open>inspect.signature(handler).parameters\<close>, in declaration order, without \<open>self\<close>\<close>
  h_doc :: "string option"
  h_run :: "message \<Rightarrow> (string \<times> arg) list \<Rightarrow> event list \<times> (error + Response option)"
    \<comment> \<open>the call with the keyword arguments; the message is the one being dispatched,
        which a handler wrapped in \<open>owner_only\<close> reads off the call stack\<close>

record bot =
  config :: config
  bot_user :: user
  for_user :: "user \<Rightarrow> permission_group"
  dir_self :: "string list"
  getattr_cmd :: "string \<Rightarrow> handler option"
  send_message :: "channel \<Rightarrow> string \<Rightarrow> error + message"
  ask :: "string \<Rightarrow> error + string"
  format_exc :: "error \<Rightarrow> string"
  edit_profile :: "string \<Rightarrow> string option"

text \<open>
  The bot instance \<open>self\<close> with its collaborators: \<open>for_user\<close> is
  \<open>self.permissions.for_user\<close>, \<open>dir_self\<close> is \<open>dir(self)\<close>, \<open>getattr_cmd a\<close> is
  \<open>getattr(self, a, None)\<close> for an attribute name \<open>a\<close> that starts with \<open>cmd_\<close>,
  \<open>send_message\<close> is the library's answer to a send (the new message, or the exception
  it raises), \<open>ask\<close> is \<open>Cleverbot().ask\<close>, \<open>format_exc\<close> is the text of
  \<open>traceback.format_exc()\<close>, and \<open>edit_profile\<close> answers a change of the username with
  the text of the exception the library raises, if it raises one.
\<close>

section \<open>Command handlers\<close>

subsection \<open>\<open>cmd_roll\<close>\<close>

definition roll_notice :: string where
  "roll_notice = ''I don't know what you wanted to roll. I rolled a 6-sided die instead'' @ [CHR 0x0A]"

definition roll_too_many :: string where
  "roll_too_many = ''Too many sides. I rolled a 1000-sided die instead'' @ [CHR 0x0A]"

definition rolled :: "int \<Rightarrow> string" where
  "rolled k = ''I rolled a **'' @ str_int k @ ''**''"

definition roll_fallback :: "nat \<Rightarrow> error + Response" where
  \<comment> \<open>the \<open>except ValueError\<close> branch\<close>
  "roll_fallback r =
     (case randint 1 6 r of
        None \<Rightarrow> Inl ValueError
      | Some k \<Rightarrow> Inr (Response (roll_notice @ rolled k) False 20))"

definition cmd_roll :: "config \<Rightarrow> message \<Rightarrow> nat \<Rightarrow> error + Response" where
  "cmd_roll cfg msg r =
     (let sides = py_strip (py_replace (command_prefix cfg @ ''roll'') [] (m_content msg)) in
      case py_int sides of
        None \<Rightarrow> roll_fallback r
      | Some n \<Rightarrow>
          if n < 1 then
            (case randint 1 6 r of
               None \<Rightarrow> roll_fallback r
             | Some k \<Rightarrow> Inr (Response (roll_notice @ rolled k) False 20))
          else if n > 1000 then
            (case randint 1 1000 r of
               None \<Rightarrow> roll_fallback r
             | Some k \<Rightarrow> Inr (Response (roll_too_many @ rolled k) False 20))
          else
            (case randint 1 n r of
               None \<Rightarrow> roll_fallback r
             | Some k \<Rightarrow> Inr (Response (rolled k) False 20)))"


subsection \<open>\<open>cmd_xkcd\<close>\<close>

definition xkcd_reply :: "(string \<Rightarrow> error + string \<times> string \<times> string) \<Rightarrow> string \<Rightarrow> error + Response" where
  \<comment> \<open>lines 328 to 333: \<open>fetch url\<close> is the \<open>alt\<close>, \<open>src\<close> and \<open>title\<close> of the second
      image of the page at \<open>url\<close>, or the exception of the request or the parse\<close>
  "xkcd_reply fetch url =
     (case fetch url of
        Inl e \<Rightarrow> Inl e
      | Inr (alt, src, title) \<Rightarrow>
          Inr (Response ('':mag:**'' @ alt @ ''**'' @ nl @ ''http:'' @ src @ nl @ title) False 20))"

definition cmd_xkcd ::
  "config \<Rightarrow> (string \<Rightarrow> error + string \<times> string \<times> string) \<Rightarrow> message \<Rightarrow> nat \<Rightarrow> error + Response" where
  "cmd_xkcd cfg fetch msg r =
     (let query = py_strip (py_replace (command_prefix cfg @ ''xkcd'') [] (m_content msg)) in
      if length query = 0 then
        (case randint 1 1662 r of
           None \<Rightarrow> Inl ValueError
         | Some i \<Rightarrow> xkcd_reply fetch (''https://xkcd.com/'' @ str_int i @ ''/''))
      else
        (case (if py_isdigit query
               then (case py_int query of
                       None \<Rightarrow> Inl ValueError
                     | Some n \<Rightarrow> Inr (n \<ge> 1 \<and> n \<le> 1662))
               else Inr False) of
           Inl e \<Rightarrow> Inl e
         | Inr first_branch \<Rightarrow>
             if first_branch then xkcd_reply fetch (''https://xkcd.com/'' @ query @ ''/'')
             else
               (case py_int query of
                  None \<Rightarrow> Inl ValueError
                | Some n \<Rightarrow>
                    if n \<le> 0 \<or> n \<ge> 1663
                      then Inr (Response ''It has to be between 1 and 1662!'' False 20)
                    else if \<not> py_isdigit query
                      then Inr (Response ''You have to put a number!'' False 20)
                    else Inl UnboundLocalError)))"

subsection \<open>\<open>cmd_help\<close>\<close>

definition is_blank :: "char \<Rightarrow> bool" where
  "is_blank c = (c = CHR 0x20 \<or> c = CHR 0x09)"

fun common_prefix :: "string \<Rightarrow> string \<Rightarrow> string" where
  "common_prefix (x # xs) (y # ys) = (if x = y then x # common_prefix xs ys else [])"
| "common_prefix xs ys = []"

definition dedent :: "string \<Rightarrow> string" where
  \<comment> \<open>\<open>textwrap.dedent\<close>: blank lines become empty, the longest common leading run of
      spaces and tabs of the other lines is removed from every line that starts with it\<close>
  "dedent text =
     (let rows = map (\<lambda>l. if list_all is_blank l then [] else l) (split_on CHR 0x0A [] text);
          indents = map (takeWhile is_blank) (filter (\<lambda>l. dropWhile is_blank l \<noteq> []) rows)
      in case indents of
           [] \<Rightarrow> py_join nl rows
         | i # others \<Rightarrow>
             (let margin = foldl common_prefix i others in
              py_join nl (map (\<lambda>l. if startswith l margin then drop (length margin) l else l) rows)))"

definition help_commands :: "bot \<Rightarrow> string list" where
  \<comment> \<open>the loop over \<open>dir(self)\<close>, lines 637 to 640\<close>
  "help_commands self =
     map (\<lambda>att. command_prefix (config self) @ py_lower (py_replace ''cmd_'' [] att))
       (filter (\<lambda>att. startswith att ''cmd_'' \<and> att \<noteq> ''cmd_help'') (dir_self self))"

definition cmd_help :: "bot \<Rightarrow> string option \<Rightarrow> error + Response" where
  "cmd_help self command =
     (case command of
        Some (c # cs) \<Rightarrow>
          (case getattr_cmd self (''cmd_'' @ c # cs) of
             Some cmd \<Rightarrow>
               (case h_doc cmd of
                  None \<Rightarrow> Inl TypeError
                | Some d \<Rightarrow> Inr (Response (''```'' @ nl @ dedent d @ ''```'') False 60))
           | None \<Rightarrow> Inr (Response ''No such command'' False 10))
      | _ \<Rightarrow>
          Inr (Response (''my commands are'' @ nl @ ''```'' @ py_join '', '' (help_commands self)
                           @ nl @ nl @ ''@me to talk to me!```'') True 60))"

subsection \<open>\<open>owner_only\<close> and \<open>cmd_setname\<close>\<close>

definition owner_only ::
  "bot \<Rightarrow> message \<Rightarrow> event list \<times> (error + Response option) \<Rightarrow> event list \<times> (error + Response option)" where
  \<comment> \<open>the decorator: \<open>orig_msg\<close> is the message of the dispatch under way\<close>
  "owner_only self orig_msg body =
     (if uid (m_author orig_msg) = owner_id (config self) then body
      else ([], Inl (PermissionsError ''Only the owner can use this command'' 30)))"

definition cmd_setname :: "bot \<Rightarrow> (string \<times> arg) list \<Rightarrow> event list \<times> (error + Response option)" where
  "cmd_setname self kwargs =
     (case (map_of kwargs ''leftover_args'', map_of kwargs ''name'') of
        (Some (ATokens leftover_args), Some (AToken n)) \<Rightarrow>
          (let joined = py_join '' '' (n # leftover_args) in
           case edit_profile self joined of
             Some e \<Rightarrow> ([HandlerEffect (''edit_profile username='' @ joined)], Inl (CommandError e 20))
           | None \<Rightarrow>
               ([HandlerEffect (''edit_profile username='' @ joined)],
                Inr (Some (Response '':ok_hand:'' False 20))))
      | _ \<Rightarrow> ([], Inl TypeError))"

subsection \<open>The commands of the class\<close>

definition cmd_attributes :: "string list" where
  \<comment> \<open>the attributes of \<open>MusicBot\<close> named \<open>cmd_...\<close>, in the order of \<open>dir()\<close>\<close>
  "cmd_attributes =
     [''cmd_8ball'', ''cmd_cat'', ''cmd_choice'', ''cmd_clean'', ''cmd_coinflip'', ''cmd_dot'',
      ''cmd_game'', ''cmd_help'', ''cmd_honk'', ''cmd_kiyu'', ''cmd_listids'', ''cmd_penguin'',
      ''cmd_perms'', ''cmd_restart'', ''cmd_roll'', ''cmd_say'', ''cmd_setavatar'',
      ''cmd_setname'', ''cmd_setnick'', ''cmd_shutdown'', ''cmd_timer'', ''cmd_tsun'',
      ''cmd_urban'', ''cmd_xkcd'']"

definition doc_roll :: string where
  "doc_roll = nl @ ''        Usage:'' @ nl @ ''            {command_prefix}roll #'' @ nl @ nl
     @ ''        Makes Ainnie-Bot roll a #-sided die (defaults to 6 if no number given)'' @ nl
     @ ''        ''"

definition doc_help :: string where
  "doc_help = nl @ ''        Usage:'' @ nl @ ''            {command_prefix}help [command]'' @ nl @ nl
     @ ''        Prints a help message.'' @ nl
     @ ''        If a command is specified, it prints a help message for that command.'' @ nl
     @ ''        Otherwise, it lists the available commands.'' @ nl
     @ ''        ''"

definition doc_setname :: string where
  "doc_setname = nl @ ''        Usage:'' @ nl @ ''            {command_prefix}setname name'' @ nl
     @ ''            '' @ nl
     @ ''        Changes the bot's username.'' @ nl
     @ ''        Note: This operation is limited by discord to twice per hour.'' @ nl
     @ ''        ''"

definition doc_xkcd :: string where
  "doc_xkcd = nl @ ''        Usage:'' @ nl @ ''            {command_prefix}xkcd'' @ nl @ nl
     @ ''        Queries a random XKCD comic.'' @ nl
     @ ''        Do {command_prefix}xkcd <number from 1-1662> to pick a specific comic.'' @ nl
     @ ''        ''"

definition handler_xkcd ::
  "bot \<Rightarrow> (string \<Rightarrow> error + string \<times> string \<times> string) \<Rightarrow> nat \<Rightarrow> handler" where
  \<comment> \<open>\<open>cmd_xkcd(self, message)\<close>, with the answer of the site and the random draw\<close>
  "handler_xkcd self fetch r =
     \<lparr>h_params = [\<lparr>p_name = ''message'', p_default = None\<rparr>],
      h_doc = Some doc_xkcd,
      h_run = (\<lambda>orig kwargs.
         case map_of kwargs ''message'' of
           Some (AMessage m) \<Rightarrow> ([], map_sum id Some (cmd_xkcd (config self) fetch m r))
         | _ \<Rightarrow> ([], Inl TypeError))\<rparr>"

definition handler_roll :: "bot \<Rightarrow> nat \<Rightarrow> handler" where
  \<comment> \<open>\<open>cmd_roll(self, message)\<close>, with the random draw of the call\<close>
  "handler_roll self r =
     \<lparr>h_params = [\<lparr>p_name = ''message'', p_default = None\<rparr>],
      h_doc = Some doc_roll,
      h_run = (\<lambda>orig kwargs.
         case map_of kwargs ''message'' of
           Some (AMessage m) \<Rightarrow> ([], map_sum id Some (cmd_roll (config self) m r))
         | _ \<Rightarrow> ([], Inl TypeError))\<rparr>"

definition handler_help :: "bot \<Rightarrow> handler" where
  \<comment> \<open>\<open>cmd_help(self, command=None)\<close>\<close>
  "handler_help self =
     \<lparr>h_params = [\<lparr>p_name = ''command'', p_default = Some ''None''\<rparr>],
      h_doc = Some doc_help,
      h_run = (\<lambda>orig kwargs.
         case map_of kwargs ''command'' of
           Some (AToken c) \<Rightarrow> ([], map_sum id Some (cmd_help self (Some c)))
         | None \<Rightarrow> ([], map_sum id Some (cmd_help self None))
         | _ \<Rightarrow> ([], Inl TypeError))\<rparr>"

definition handler_setname :: "bot \<Rightarrow> handler" where
  \<comment> \<open>\<open>@owner_only cmd_setname(self, leftover_args, name)\<close>\<close>
  "handler_setname self =
     \<lparr>h_params = [\<lparr>p_name = ''leftover_args'', p_default = None\<rparr>,
                  \<lparr>p_name = ''name'', p_default = None\<rparr>],
      h_doc = Some doc_setname,
      h_run = (\<lambda>orig kwargs. owner_only self orig (cmd_setname self kwargs))\<rparr>"

section \<open>The router\<close>

subsection \<open>\<open>safe_send_message\<close>\<close>

definition truthy :: "int option \<Rightarrow> bool" where
  \<comment> \<open>Python's truth value of \<open>expire_in\<close>: \<open>None\<close> and \<open>0\<close> are false\<close>
  "truthy x = (case x of None \<Rightarrow> False | Some n \<Rightarrow> n \<noteq> 0)"

definition safe_send_message ::
  "bot \<Rightarrow> channel \<Rightarrow> string \<Rightarrow> int option \<Rightarrow> message option \<Rightarrow> bool
     \<Rightarrow> event list \<times> (error + message option)" where
  "safe_send_message self dest text expire_in also_delete quiet =
     (case send_message self dest text of
        Inr msg \<Rightarrow>
          (SendMessage dest text
             # (if truthy expire_in then [Scheduled msg expire_in] else [])
             @ (case also_delete of
                  Some m \<Rightarrow> [Scheduled m expire_in]
                | None \<Rightarrow> []),
           Inr (Some msg))
      | Inl e \<Rightarrow>
          if e = Forbidden then
            (SendMessage dest text
               # (if quiet then []
                  else [Printed (''Warning: Cannot send message to '' @ cname dest
                                   @ '', no permission'')]),
             Inr None)
          else if e = NotFound then
            (SendMessage dest text
               # (if quiet then []
                  else [Printed (''Warning: Cannot send message to '' @ cname dest
                                   @ '', invalid channel?'')]),
             Inr None)
          else ([SendMessage dest text], Inl e))"

subsection \<open>The part of \<open>str.format\<close> the usage text needs\<close>

definition format_field :: "string \<Rightarrow> string \<Rightarrow> error + string" where
  \<comment> \<open>the replacement field \<open>{field}\<close> under \<open>.format(command_prefix=p)\<close>: a field with
      a conversion, a format spec, an attribute or an index is left out of the model\<close>
  "format_field p field =
     (if field = ''command_prefix'' then Inr p
      else if \<exists>c\<in>set field. c \<in> {CHR ''{'', CHR ''!'', CHR '':'', CHR ''.'', CHR ''[''}
        then Inl FormatNotModelled
      else if list_all is_ascii_digit field then Inl IndexError
      else Inl KeyError)"

fun format_scan :: "string \<Rightarrow> string option \<Rightarrow> string \<Rightarrow> error + string" where
  \<comment> \<open>second argument: \<open>None\<close> in literal text, \<open>Some f\<close> inside a replacement field
      of which \<open>f\<close> has been read\<close>
  "format_scan p None [] = Inr []"
| "format_scan p None [c] =
     (if c = CHR ''{'' \<or> c = CHR ''}'' then Inl ValueError else Inr [c])"
| "format_scan p None (c # d # cs) =
     (if c = CHR ''{'' then
        (if d = CHR ''{'' then map_sum id ((#) c) (format_scan p None cs)
         else format_scan p (Some []) (d # cs))
      else if c = CHR ''}'' then
        (if d = CHR ''}'' then map_sum id ((#) c) (format_scan p None cs)
         else Inl ValueError)
      else map_sum id ((#) c) (format_scan p None (d # cs)))"
| "format_scan p (Some f) [] = Inl ValueError"
| "format_scan p (Some f) (c # cs) =
     (if c = CHR ''}'' then
        (case format_field p f of
           Inl e \<Rightarrow> Inl e
         | Inr v \<Rightarrow> map_sum id ((@) v) (format_scan p None cs))
      else format_scan p (Some (f @ [c])) cs)"

definition py_format :: "string \<Rightarrow> string \<Rightarrow> error + string" where
  \<comment> \<open>\<open>docs.format(command_prefix=p)\<close>\<close>
  "py_format docs p = format_scan p None docs"

subsection \<open>Parameter binding\<close>

record binding =
  args :: "string list"
  handler_kwargs :: "(string \<times> arg) list"
  params :: "param list"
  args_expected :: "string list"

text \<open>
  The local state of the \<open>try\<close> block: \<open>args\<close> is the contents of the token list object,
  which \<open>args.pop(0)\<close> changes in place; \<open>handler_kwargs\<close> is the dictionary in insertion
  order; \<open>params\<close> is the copy of the signature's parameters that the block pops from.
\<close>

fun dict_set :: "string \<Rightarrow> arg \<Rightarrow> (string \<times> arg) list \<Rightarrow> (string \<times> arg) list" where
  "dict_set k v [] = [(k, v)]"
| "dict_set k v ((k', v') # kvs) =
     (if k' = k then (k, v) # kvs else (k', v') # dict_set k v kvs)"

definition declared :: "string \<Rightarrow> param list \<Rightarrow> bool" where
  "declared k ps = (k \<in> set (map p_name ps))"

definition pop :: "string \<Rightarrow> param list \<Rightarrow> param list" where
  "pop k ps = filter (\<lambda>q. p_name q \<noteq> k) ps"

definition bind_named :: "string \<Rightarrow> arg \<Rightarrow> binding \<Rightarrow> binding" where
  \<comment> \<open>\<open>if params.pop(k, None): handler_kwargs[k] = v\<close>\<close>
  "bind_named k v st =
     (if declared k (params st)
      then st\<lparr>handler_kwargs := dict_set k v (handler_kwargs st), params := pop k (params st)\<rparr>
      else st)"

definition bind_context :: "message \<Rightarrow> permission_group \<Rightarrow> binding \<Rightarrow> error + binding" where
  "bind_context msg user_permissions st0 =
     (let st1 = bind_named ''message'' (AMessage msg) st0;
          st2 = bind_named ''channel'' (AChannel (m_channel msg)) st1;
          st3 = bind_named ''author'' (AUser (m_author msg)) st2;
          st4 = bind_named ''server'' (AServer (m_server msg)) st3
      in
      if declared ''player'' (params st4) then Inl AttributeError
        \<comment> \<open>\<open>self.get_player\<close>: neither this class nor the client class has it\<close>
      else
        let st5 = bind_named ''permissions'' (APermissions user_permissions) st4 in
        (case m_server msg of
           None \<Rightarrow>
             if declared ''user_mentions'' (params st5) then Inl AttributeError
             else if declared ''channel_mentions'' (params st5) then Inl AttributeError
             else Inr (bind_named ''leftover_args'' ArgsRef st5)
         | Some srv \<Rightarrow>
             let st6 = bind_named ''user_mentions''
                         (AUsers (map (get_member srv) (m_raw_mentions msg))) st5;
                 st7 = bind_named ''channel_mentions''
                         (AChannels (map (get_channel srv) (m_raw_channel_mentions msg))) st6
             in Inr (bind_named ''leftover_args'' ArgsRef st7)))"

definition doc_key :: "param \<Rightarrow> string" where
  "doc_key q =
     (case p_default q of
        Some d \<Rightarrow> ''['' @ p_name q @ ''='' @ d @ '']''
      | None \<Rightarrow> p_name q)"

fun bind_positional :: "param list \<Rightarrow> binding \<Rightarrow> binding" where
  \<comment> \<open>the loop over \<open>list(params.items())\<close>\<close>
  "bind_positional [] st = st"
| "bind_positional (q # qs) st =
     (let st1 = st\<lparr>args_expected := args_expected st @ [doc_key q]\<rparr> in
      if args st1 = [] \<and> p_default q \<noteq> None
        then bind_positional qs (st1\<lparr>params := pop (p_name q) (params st1)\<rparr>)
      else
        (case args st1 of
           arg_value # rest \<Rightarrow>
             bind_positional qs
               (st1\<lparr>args := rest,
                    handler_kwargs := dict_set (p_name q) (AToken arg_value) (handler_kwargs st1),
                    params := pop (p_name q) (params st1)\<rparr>)
         | [] \<Rightarrow> bind_positional qs st1))"

definition bind_params :: "message \<Rightarrow> permission_group \<Rightarrow> handler \<Rightarrow> string list \<Rightarrow> error + binding" where
  \<comment> \<open>lines 906 to 946: the context parameters, then the positional ones\<close>
  "bind_params msg user_permissions h args0 =
     (case bind_context msg user_permissions
             \<lparr>args = args0, handler_kwargs = [], params = h_params h, args_expected = []\<rparr> of
        Inl e \<Rightarrow> Inl e
      | Inr st \<Rightarrow> Inr (bind_positional (params st) st))"

subsection \<open>Permission gate, usage text, invocation\<close>

definition permission_gate :: "bot \<Rightarrow> message \<Rightarrow> permission_group \<Rightarrow> string \<Rightarrow> error option" where
  "permission_gate self msg user_permissions command =
     (if uid (m_author msg) \<noteq> owner_id (config self) then
        (if command_whitelist user_permissions \<noteq> {}
              \<and> command \<notin> command_whitelist user_permissions
         then Some (PermissionsError
                (''This command is not enabled for your group ('' @ name user_permissions @ '').'') 20)
         else if command_blacklist user_permissions \<noteq> {}
              \<and> command \<in> command_blacklist user_permissions
         then Some (PermissionsError
                (''This command is disabled for your group ('' @ name user_permissions @ '').'') 20)
         else None)
      else None)"

definition usage_docs :: "bot \<Rightarrow> string \<Rightarrow> handler \<Rightarrow> binding \<Rightarrow> string" where
  "usage_docs self command h st =
     (let generated = ''Usage: '' @ command_prefix (config self) @ command @ '' ''
                        @ py_join '' '' (args_expected st);
          docs = (case h_doc h of
                    None \<Rightarrow> generated
                  | Some d \<Rightarrow> if d = [] then generated else d)
      in py_join nl (map py_strip (split_on CHR 0x0A [] docs)))"

fun deref :: "string list \<Rightarrow> arg \<Rightarrow> arg" where
  "deref current ArgsRef = ATokens current"
| "deref current v = v"

definition resolve :: "string list \<Rightarrow> (string \<times> arg) list \<Rightarrow> (string \<times> arg) list" where
  \<comment> \<open>the keyword arguments as the handler receives them: a reference to the token
      list gives the list's contents at the time of the call\<close>
  "resolve current kwargs = map (\<lambda>(k, v). (k, deref current v)) kwargs"

definition reply_text :: "message \<Rightarrow> Response \<Rightarrow> string" where
  \<comment> \<open>lines 978 to 980\<close>
  "reply_text msg response =
     (if reply response
      then mention (m_author msg) @ '', '' @ content response
      else content response)"

definition send_reply :: "bot \<Rightarrow> message \<Rightarrow> Response \<Rightarrow> event list \<times> (error + message option)" where
  \<comment> \<open>lines 982 to 986\<close>
  "send_reply self msg response =
     safe_send_message self (m_channel msg) (reply_text msg response)
       (Some (if delete_messages (config self) then delete_after response else 0))
       (if delete_invoking (config self) then Some msg else None)
       False"

definition invoke :: "bot \<Rightarrow> message \<Rightarrow> string \<Rightarrow> handler \<Rightarrow> binding \<Rightarrow> event list \<times> (error + unit)" where
  \<comment> \<open>lines 976 to 986\<close>
  "invoke self msg command h st =
     (let kwargs = resolve (args st) (handler_kwargs st) in
      case h_run h msg kwargs of
        (evs, Inl e) \<Rightarrow> (Invoked command kwargs # evs, Inl e)
      | (evs, Inr None) \<Rightarrow> (Invoked command kwargs # evs, Inr ())
      | (evs, Inr (Some response)) \<Rightarrow>
          (case send_reply self msg response of
             (evs', Inl e) \<Rightarrow> (Invoked command kwargs # evs @ evs', Inl e)
           | (evs', Inr sentmsg) \<Rightarrow> (Invoked command kwargs # evs @ evs', Inr ())))"

definition dispatch :: "bot \<Rightarrow> message \<Rightarrow> string \<Rightarrow> string list \<Rightarrow> handler \<Rightarrow> event list \<times> (error + unit)" where
  \<comment> \<open>the body of the \<open>try\<close> block, lines 906 to 986\<close>
  "dispatch self msg command args0 h =
     (let user_permissions = for_user self (m_author msg) in
      case bind_params msg user_permissions h args0 of
        Inl e \<Rightarrow> ([], Inl e)
      | Inr st \<Rightarrow>
          (case permission_gate self msg user_permissions command of
             Some e \<Rightarrow> ([], Inl e)
           | None \<Rightarrow>
               if params st \<noteq> [] then
                 (case py_format (usage_docs self command h st) (command_prefix (config self)) of
                    Inl e \<Rightarrow> ([], Inl e)
                  | Inr docs \<Rightarrow>
                      (case safe_send_message self (m_channel msg)
                              (''```'' @ nl @ docs @ nl @ ''```'') (Some 60) None False of
                         (evs, Inl e) \<Rightarrow> (evs, Inl e)
                       | (evs, Inr sent) \<Rightarrow> (evs, Inr ())))
               else invoke self msg command h st))"

subsection \<open>\<open>on_message\<close>\<close>

definition bot_mention :: string where
  "bot_mention = ''<@193778484869332993>''"

definition escaping :: "event list \<times> (error + 'a) \<Rightarrow> event list \<times> error option" where
  \<comment> \<open>a call outside the \<open>try\<close> block: what it raises leaves \<open>on_message\<close>\<close>
  "escaping r = (case r of (evs, Inl e) \<Rightarrow> (evs, Some e) | (evs, Inr v) \<Rightarrow> (evs, None))"

definition after_events :: "event list \<Rightarrow> event list \<times> error option \<Rightarrow> event list \<times> error option" where
  "after_events evs r = (evs @ fst r, snd r)"

definition handle_exception :: "bot \<Rightarrow> message \<Rightarrow> error \<Rightarrow> event list \<times> error option" where
  \<comment> \<open>the three \<open>except\<close> clauses, lines 988 to 1007\<close>
  "handle_exception self msg e =
     (case reported e of
        Some (cls, text, expire) \<Rightarrow>
          after_events
            [Printed (''<class 'musicbot.exceptions.'' @ cls @ '''>: '' @ text)]
            (escaping
               (safe_send_message self (m_channel msg) (''```'' @ nl @ text @ nl @ ''```'')
                  (if delete_messages (config self) then Some expire else None)
                  (if delete_invoking (config self) then Some msg else None)
                  False))
      | None \<Rightarrow>
          if is_signal e then ([], Some e)
          else if debug_mode (config self) then
            after_events [PrintedTraceback e]
              (escaping
                 (safe_send_message self (m_channel msg)
                    (''```'' @ nl @ format_exc self e @ nl @ ''```'') (Some 0) None False))
          else ([PrintedTraceback e], None))"

definition non_command :: "bot \<Rightarrow> message \<Rightarrow> string \<Rightarrow> event list \<times> error option" where
  \<comment> \<open>lines 861 to 873: the path of a text that does not start with the prefix\<close>
  "non_command self msg message_content =
     (if py_contains message_content bot_mention then
        (case ask self (py_strip (py_replace bot_mention [] message_content)) of
           Inl e \<Rightarrow> ([], Some e)
         | Inr answer \<Rightarrow>
             escaping
               (safe_send_message self (m_channel msg)
                  (mention (m_author msg) @ '' '' @ answer) (Some 0) None False))
      else ([], None))"

definition route :: "bot \<Rightarrow> message \<Rightarrow> (event list \<times> error option) + (string \<times> string list \<times> handler)" where
  \<comment> \<open>lines 853 to 894, the part of \<open>on_message\<close> before the \<open>try\<close> block: either the
      message is dropped or answered here (\<open>Inl\<close>), or it is a command for a handler
      (\<open>Inr\<close>: the command keyword, the argument tokens, the handler)\<close>
  "route self msg =
     (if ubot (m_author msg) then Inl ([], None)
      else
        let message_content = py_strip (m_content msg);
            prefix = command_prefix (config self)
        in
        if \<not> startswith message_content prefix then Inl (non_command self msg message_content)
        else if uid (m_author msg) = uid (bot_user self) then
          Inl ([Printed (''Ignoring command from myself ('' @ m_content msg @ '')'')], None)
        else if bound_channels (config self) \<noteq> {}
                \<and> cid (m_channel msg) \<notin> bound_channels (config self)
                \<and> \<not> is_private (m_channel msg)
          then Inl ([], None)
        else
          (case py_split message_content of
             [] \<Rightarrow> Inl ([], Some ValueError)
           | first # args0 \<Rightarrow>
               let command = py_strip (py_lower (drop (length prefix) first)) in
               (case getattr_cmd self (''cmd_'' @ command) of
                  None \<Rightarrow> Inl ([], None)
                | Some h \<Rightarrow>
                    if is_private (m_channel msg)
                       \<and> \<not> (uid (m_author msg) = owner_id (config self) \<and> command = ''joinserver'')
                    then
                      (case send_message self (m_channel msg)
                              ''You cannot use this bot in private messages.'' of
                         Inl e \<Rightarrow>
                           Inl ([SendMessage (m_channel msg)
                                   ''You cannot use this bot in private messages.''], Some e)
                       | Inr sent \<Rightarrow>
                           Inl ([SendMessage (m_channel msg)
                                   ''You cannot use this bot in private messages.''], None))
                    else Inr (command, args0, h))))"

definition on_message :: "bot \<Rightarrow> message \<Rightarrow> event list \<times> error option" where
  "on_message self msg =
     (case route self msg of
        Inl r \<Rightarrow> r
      | Inr (command, args0, h) \<Rightarrow>
          after_events
            [Printed (''[Command] '' @ uid (m_author msg) @ ''/'' @ uname (m_author msg)
                        @ '' ('' @ py_strip (m_content msg) @ '')'')]
            (case dispatch self msg command args0 h of
               (evs, Inr u) \<Rightarrow> (evs, None)
             | (evs, Inl e) \<Rightarrow> after_events evs (handle_exception self msg e)))"

section \<open>Vocabulary of the properties\<close>

text \<open>
  The names the router binds from the request context, and the positional parameters
  of a signature: the declared parameters with any other name, in declaration order.
\<close>

definition context_names :: "string list" where
  "context_names = [''message'', ''channel'', ''author'', ''server'', ''player'', ''permissions'',
                    ''user_mentions'', ''channel_mentions'', ''leftover_args'']"

definition positional :: "param list \<Rightarrow> param list" where
  "positional ps = filter (\<lambda>q. p_name q \<notin> set context_names) ps"

fun is_token :: "arg \<Rightarrow> bool" where
  "is_token (AToken t) = True"
| "is_token v = False"

definition context_bound :: "message \<Rightarrow> permission_group \<Rightarrow> arg \<Rightarrow> arg \<Rightarrow> binding \<Rightarrow> binding" where
  "context_bound msg perms um cm st0 =
     bind_named ''leftover_args'' ArgsRef
       (bind_named ''channel_mentions'' cm
         (bind_named ''user_mentions'' um
           (bind_named ''permissions'' (APermissions perms)
             (bind_named ''server'' (AServer (m_server msg))
               (bind_named ''author'' (AUser (m_author msg))
                 (bind_named ''channel'' (AChannel (m_channel msg))
                   (bind_named ''message'' (AMessage msg) st0)))))))"

section \<open>Example objects\<close>

definition cfg0 :: config where
  "cfg0 = \<lparr>command_prefix = ''!'', owner_id = ''100'', bound_channels = {},
           delete_messages = True, delete_invoking = False, debug_mode = False\<rparr>"

definition alice :: user where
  "alice = \<lparr>uid = ''200'', uname = ''alice'', ubot = False, mention = ''<@200>''\<rparr>"

definition olivia :: user where
  \<comment> \<open>the owner\<close>
  "olivia = \<lparr>uid = ''100'', uname = ''olivia'', ubot = False, mention = ''<@100>''\<rparr>"

definition kiyukii :: user where
  \<comment> \<open>the bot's own account, a user account\<close>
  "kiyukii = \<lparr>uid = ''193778484869332993'', uname = ''kiyukii'', ubot = False,
              mention = ''<@193778484869332993>''\<rparr>"

definition general :: channel where
  "general = \<lparr>cid = ''300'', cname = ''general'', is_private = False\<rparr>"

definition home :: server where
  "home = \<lparr>sid = ''400'', s_members = [alice, olivia, kiyukii], s_channels = [general]\<rparr>"

definition msg_from :: "user \<Rightarrow> string \<Rightarrow> message" where
  "msg_from u text = \<lparr>m_id = 1, m_content = text, m_author = u, m_channel = general,
                m_server = Some home, m_raw_mentions = [], m_raw_channel_mentions = []\<rparr>"

definition msg0 :: "string \<Rightarrow> message" where
  "msg0 text = msg_from alice text"

definition everyone :: permission_group where
  "everyone = \<lparr>name = ''Default'', command_whitelist = {}, command_blacklist = {}\<rparr>"

definition limited :: permission_group where
  "limited = \<lparr>name = ''Limited'', command_whitelist = {''roll'', ''help''}, command_blacklist = {''roll''}\<rparr>"

definition sent_message :: "channel \<Rightarrow> string \<Rightarrow> message" where
  \<comment> \<open>the message the library returns for a delivered text\<close>
  "sent_message dest text = \<lparr>m_id = 2, m_content = text, m_author = kiyukii, m_channel = dest,
                m_server = Some home, m_raw_mentions = [], m_raw_channel_mentions = []\<rparr>"

definition bot_with :: "config \<Rightarrow> (user \<Rightarrow> permission_group) \<Rightarrow> (bot \<Rightarrow> string \<Rightarrow> handler option) \<Rightarrow> bot" where
  \<comment> \<open>The methods of the class are closed over the instance. A record cannot hold
      itself, so the instance the handlers see (\<open>inner\<close>) lists the handlers of \<open>base\<close>,
      which have the same signatures and documentation.\<close>
  "bot_with cfg groups table =
     (let base = \<lparr>config = cfg, bot_user = kiyukii, for_user = groups,
                  dir_self = ''change_status'' # cmd_attributes @ [''config'', ''on_message''],
                  getattr_cmd = (\<lambda>a. None),
                  send_message = (\<lambda>dest text. Inr (sent_message dest text)),
                  ask = (\<lambda>text. Inr ''Hello.''),
                  format_exc = (\<lambda>e. ''Traceback (most recent call last):''),
                  edit_profile = (\<lambda>n. None)\<rparr>;
          inner = base\<lparr>getattr_cmd := table base\<rparr>
      in base\<lparr>getattr_cmd := table inner\<rparr>)"

definition modelled_commands :: "bot \<Rightarrow> string \<Rightarrow> handler option" where
  \<comment> \<open>the handlers modelled above, under their attribute names\<close>
  "modelled_commands self a =
     (if a = ''cmd_roll'' then Some (handler_roll self 4)
      else if a = ''cmd_help'' then Some (handler_help self)
      else if a = ''cmd_setname'' then Some (handler_setname self)
      else if a = ''cmd_xkcd''
        then Some (handler_xkcd self (\<lambda>url. Inr (''Comic'', ''//imgs.xkcd.com/comics/comic.png'', ''Title'')) 4)
      else None)"

definition bot0 :: bot where
  \<comment> \<open>every author in the group without restrictions\<close>
  "bot0 = bot_with cfg0 (\<lambda>u. everyone) modelled_commands"

definition bot1 :: bot where
  \<comment> \<open>alice in the restricted group\<close>
  "bot1 = bot_with cfg0 (\<lambda>u. if uid u = ''200'' then limited else everyone) modelled_commands"

definition cfg1 :: config where
  \<comment> \<open>replies are kept, invoking messages are deleted\<close>
  "cfg1 = cfg0\<lparr>delete_messages := False, delete_invoking := True\<rparr>"

definition bot2 :: bot where
  "bot2 = bot_with cfg1 (\<lambda>u. everyone) modelled_commands"

definition robo :: user where
  \<comment> \<open>another bot, a bot account\<close>
  "robo = \<lparr>uid = ''500'', uname = ''robo'', ubot = True, mention = ''<@500>''\<rparr>"

definition bot3 :: bot where
  \<comment> \<open>bound to a channel other than \<open>general\<close>\<close>
  "bot3 = bot_with (cfg0\<lparr>bound_channels := {''301''}\<rparr>) (\<lambda>u. everyone) modelled_commands"

section \<open>Lemmas on the string functions and the random draws\<close>

lemma py_replace_short: "length s < length old \<Longrightarrow> py_replace old new s = s"
proof (induction s)
  case Nil then show ?case by auto
next
  case (Cons c cs)
  then have "old \<noteq> []" by auto
  moreover have "\<not> startswith (c # cs) old"
    using Cons.prems unfolding startswith_def
    by (metis length_take min.absorb2 less_imp_le_nat less_irrefl_nat length_Cons min.commute)
  ultimately show ?case using Cons by simp
qed

lemma py_replace_at_start:
  "old \<noteq> [] \<Longrightarrow> py_replace old new (old @ rest) = new @ py_replace old new rest"
proof -
  assume ne: "old \<noteq> []"
  then obtain c cs where e: "old @ rest = c # cs" by (cases old) auto
  have "startswith (old @ rest) old" by (simp add: startswith_def)
  then have "py_replace old new (c # cs) = new @ py_replace old new (drop (length old) (c # cs))"
    using ne e by simp
  moreover have "drop (length old) (c # cs) = rest" using e by (metis append_eq_conv_conj)
  ultimately show ?thesis using e by simp
qed

lemma set_py_replace_empty: "old \<noteq> [] \<Longrightarrow> set (py_replace old [] s) \<subseteq> set s"
proof (induction old "[] :: string" s rule: py_replace.induct)
  case (1 old) then show ?case by simp
next
  case (2 old c cs)
  show ?case
  proof (cases "startswith (c # cs) old")
    case True
    with 2 have "set (py_replace old [] (drop (length old) (c # cs))) \<subseteq> set (drop (length old) (c # cs))" by simp
    also have "\<dots> \<subseteq> set (c # cs)" by (rule set_drop_subset)
    finally show ?thesis using True 2 by simp
  next
    case False
    with 2 show ?thesis by auto
  qed
qed

lemma set_py_strip: "set (py_strip s) \<subseteq> set s"
  unfolding py_strip_def py_rstrip_def py_lstrip_def
  by (metis set_dropWhileD set_rev subsetI)

lemma parse_digits_needs_digit:
  "parse_digits acc False s = Some v \<Longrightarrow> \<exists>c\<in>set s. is_ascii_digit c"
  by (cases s) (auto split: if_splits)

lemma py_int_needs_digit:
  assumes "py_int s = Some v" shows "\<exists>c\<in>set s. is_ascii_digit c"
proof -
  let ?t = "rev (dropWhile int_isspace (rev (dropWhile int_isspace s)))"
  have sub: "set ?t \<subseteq> set s" by (metis set_dropWhileD set_rev subsetI)
  from assms obtain c cs where t: "?t = c # cs"
    by (auto simp: py_int_def split: list.splits)
  have "\<exists>d\<in>set ?t. is_ascii_digit d"
  proof (cases "c = CHR ''-'' \<or> c = CHR ''+''")
    case True
    with assms t obtain w where "parse_digits 0 False cs = Some w"
      by (auto simp: py_int_def split: if_splits)
    from parse_digits_needs_digit[OF this] show ?thesis using t by auto
  next
    case False
    with assms t have "parse_digits 0 False (c # cs) = Some v"
      by (auto simp: py_int_def split: if_splits)
    from parse_digits_needs_digit[OF this] show ?thesis using t by auto
  qed
  with sub show ?thesis by blast
qed

lemma randint_range: "lo \<le> hi \<Longrightarrow> \<exists>k. randint lo hi r = Some k \<and> lo \<le> k \<and> k \<le> hi"
proof -
  assume h: "lo \<le> hi"
  have "r mod nat (hi - lo + 1) < nat (hi - lo + 1)" using h by simp
  then have "int (r mod nat (hi - lo + 1)) \<le> hi - lo" using h by linarith
  then show ?thesis using h by (simp add: randint_def)
qed

lemma py_replace_absent:
  "x \<in> set old \<Longrightarrow> x \<notin> set s \<Longrightarrow> py_replace old new s = s"
proof (induction s)
  case Nil then show ?case by auto
next
  case (Cons c cs)
  then have ne: "old \<noteq> []" by auto
  have "\<not> startswith (c # cs) old"
  proof
    assume "startswith (c # cs) old"
    then have "set old \<subseteq> set (c # cs)"
      unfolding startswith_def by (metis set_take_subset)
    with Cons.prems show False by blast
  qed
  with ne Cons show ?case by simp
qed

lemma roll_sides:
  "CHR ''r'' \<notin> set rest \<Longrightarrow> py_replace (p @ ''roll'') [] (p @ ''roll'' @ rest) = rest"
proof -
  assume l: "CHR ''r'' \<notin> set rest"
  have "py_replace (p @ ''roll'') [] ((p @ ''roll'') @ rest) = [] @ py_replace (p @ ''roll'') [] rest"
    by (rule py_replace_at_start) simp
  moreover have "py_replace (p @ ''roll'') [] rest = rest"
    by (rule py_replace_absent[of "CHR ''r''"]) (use l in simp_all)
  ultimately show ?thesis by simp
qed

lemma roll_int_literals:
  "py_int (py_strip '' 0'') = Some 0"
  "py_int (py_strip '' 2000'') = Some 2000"
  "py_int (py_strip '' 20'') = Some 20"
  by (simp_all add: py_int_def py_strip_def py_lstrip_def py_rstrip_def py_isspace_def
        int_isspace_def is_ascii_digit_def)

lemma roll_no_digit:
  assumes "\<forall>c\<in>set tok. \<not> is_ascii_digit c"
  shows "py_int (py_strip (py_replace (p @ ''roll'') [] (p @ ''roll '' @ tok))) = None"
proof (rule ccontr)
  let ?P = "p @ ''roll''"
  assume "py_int (py_strip (py_replace ?P [] (p @ ''roll '' @ tok))) \<noteq> None"
  then obtain v where "py_int (py_strip (py_replace ?P [] (p @ ''roll '' @ tok))) = Some v"
    by auto
  from py_int_needs_digit[OF this] obtain c
    where c: "c \<in> set (py_strip (py_replace ?P [] (p @ ''roll '' @ tok)))" and d: "is_ascii_digit c"
    by auto
  have "py_replace ?P [] (?P @ (CHR '' '' # tok)) = [] @ py_replace ?P [] (CHR '' '' # tok)"
    by (rule py_replace_at_start) simp
  then have "set (py_replace ?P [] (p @ ''roll '' @ tok)) \<subseteq> set (CHR '' '' # tok)"
    using set_py_replace_empty[of ?P "CHR '' '' # tok"] by simp
  with c set_py_strip have "c \<in> set (CHR '' '' # tok)" by blast
  with d assms show False by (auto simp: is_ascii_digit_def)
qed

section \<open>Lemmas on parameter binding\<close>

lemma map_of_dict_set: "map_of (dict_set k v kvs) = (map_of kvs)(k \<mapsto> v)"
  by (induction kvs) (auto simp: fun_eq_iff)

lemma dict_set_fresh: "k \<notin> fst ` set kvs \<Longrightarrow> dict_set k v kvs = kvs @ [(k, v)]"
  by (induction kvs) auto

lemma keys_dict_set: "fst ` set (dict_set k v kvs) = insert k (fst ` set kvs)"
  by (simp add: dom_map_of_conv_image_fst[symmetric] map_of_dict_set)

lemma tokens_dict_set:
  "\<not> is_token v \<Longrightarrow> filter (is_token \<circ> snd) kvs = [] \<Longrightarrow> filter (is_token \<circ> snd) (dict_set k v kvs) = []"
  by (induction kvs) (auto split: if_splits)

lemma pop_pop: "pop k (pop k' ps) = filter (\<lambda>q. p_name q \<noteq> k \<and> p_name q \<noteq> k') ps"
  by (auto simp: pop_def intro: filter_cong)

lemma pop_undeclared: "\<not> declared k ps \<Longrightarrow> pop k ps = ps"
  by (induction ps) (auto simp: pop_def declared_def)

lemma bind_named_args [simp]: "args (bind_named k v st) = args st"
  by (simp add: bind_named_def)

lemma bind_named_expected [simp]: "args_expected (bind_named k v st) = args_expected st"
  by (simp add: bind_named_def)

lemma bind_named_params [simp]: "params (bind_named k v st) = pop k (params st)"
  by (simp add: bind_named_def pop_undeclared)

lemma bind_named_keys: "fst ` set (handler_kwargs (bind_named k v st)) \<subseteq> insert k (fst ` set (handler_kwargs st))"
  by (auto simp: bind_named_def keys_dict_set)

lemma bind_named_tokens:
  "\<not> is_token v \<Longrightarrow> filter (is_token \<circ> snd) (handler_kwargs st) = []
     \<Longrightarrow> filter (is_token \<circ> snd) (handler_kwargs (bind_named k v st)) = []"
  by (simp add: bind_named_def tokens_dict_set)

lemma bind_named_lookup:
  "map_of (handler_kwargs (bind_named k v st)) k' =
     (if k' = k \<and> declared k (params st) then Some v else map_of (handler_kwargs st) k')"
  by (simp add: bind_named_def map_of_dict_set)

lemma declared_pop: "declared k (pop k' ps) = (k \<noteq> k' \<and> declared k ps)"
  by (auto simp: declared_def pop_def)

lemma bind_positional_args: "args (bind_positional qs st) = drop (length qs) (args st)"
proof (induction qs arbitrary: st)
  case Nil then show ?case by simp
next
  case (Cons q qs)
  show ?case
  proof (cases "args st")
    case Nil
    then show ?thesis using Cons.IH by (simp add: Let_def)
  next
    case (Cons a rest)
    then show ?thesis using Cons.IH by (simp add: Let_def)
  qed
qed

lemma bind_positional_kwargs:
  "distinct (map p_name qs) \<Longrightarrow> p_name ` set qs \<inter> fst ` set (handler_kwargs st) = {}
   \<Longrightarrow> handler_kwargs (bind_positional qs st)
        = handler_kwargs st @ zip (map p_name qs) (map AToken (args st))"
proof (induction qs arbitrary: st)
  case Nil then show ?case by simp
next
  case (Cons q qs)
  show ?case
  proof (cases "args st")
    case Nil
    then show ?thesis using Cons by (simp add: Let_def)
  next
    case (Cons a rest)
    let ?st' = "st\<lparr>args_expected := args_expected st @ [doc_key q], args := rest,
                 handler_kwargs := dict_set (p_name q) (AToken a) (handler_kwargs st),
                 params := pop (p_name q) (params st)\<rparr>"
    have fresh: "p_name q \<notin> fst ` set (handler_kwargs st)" using Cons.prems by auto
    have "p_name ` set qs \<inter> fst ` set (handler_kwargs ?st') = {}"
      using Cons.prems by (auto simp: keys_dict_set)
    moreover have "distinct (map p_name qs)" using Cons.prems by simp
    ultimately have "handler_kwargs (bind_positional qs ?st')
        = handler_kwargs ?st' @ zip (map p_name qs) (map AToken (args ?st'))"
      by (rule Cons.IH[rotated])
    then show ?thesis using Cons fresh by (simp add: Let_def dict_set_fresh)
  qed
qed

lemma pop_middle:
  "p_name q \<notin> p_name ` set kept \<Longrightarrow> p_name q \<notin> p_name ` set qs
   \<Longrightarrow> pop (p_name q) (kept @ q # qs) = kept @ qs"
proof -
  assume a: "p_name q \<notin> p_name ` set kept" and b: "p_name q \<notin> p_name ` set qs"
  have "filter (\<lambda>x. p_name x \<noteq> p_name q) kept = kept"
    using a by (intro filter_True) (metis image_eqI)
  moreover have "filter (\<lambda>x. p_name x \<noteq> p_name q) qs = qs"
    using b by (intro filter_True) (metis image_eqI)
  ultimately show ?thesis by (simp add: pop_def)
qed

lemma bind_positional_params:
  "distinct (map p_name qs) \<Longrightarrow> params st = kept @ qs
   \<Longrightarrow> p_name ` set qs \<inter> p_name ` set kept = {}
   \<Longrightarrow> params (bind_positional qs st)
        = kept @ filter (\<lambda>q. p_default q = None) (drop (length (args st)) qs)"
proof (induction qs arbitrary: st kept)
  case Nil then show ?case by simp
next
  case (Cons q qs)
  have nk: "p_name q \<notin> p_name ` set kept" and nq: "p_name q \<notin> p_name ` set qs"
    and dq: "distinct (map p_name qs)" and dj: "p_name ` set qs \<inter> p_name ` set kept = {}"
    using Cons.prems by auto
  have popq: "pop (p_name q) (params st) = kept @ qs"
    using Cons.prems(2) pop_middle[OF nk nq] by simp
  show ?case
  proof (cases "args st")
    case Nil
    show ?thesis
    proof (cases "p_default q")
      case None
      let ?st' = "st\<lparr>args_expected := args_expected st @ [doc_key q]\<rparr>"
      have "params ?st' = (kept @ [q]) @ qs" using Cons.prems(2) by simp
      moreover have "p_name ` set qs \<inter> p_name ` set (kept @ [q]) = {}" using dj nq by auto
      ultimately have "params (bind_positional qs ?st')
          = (kept @ [q]) @ filter (\<lambda>q. p_default q = None) (drop (length (args ?st')) qs)"
        using dq Cons.IH by blast
      then show ?thesis using Nil None by (simp add: Let_def)
    next
      case (Some d)
      let ?st' = "st\<lparr>args_expected := args_expected st @ [doc_key q],
                     params := pop (p_name q) (params st)\<rparr>"
      have "params ?st' = kept @ qs" using popq by simp
      then have "params (bind_positional qs ?st')
          = kept @ filter (\<lambda>q. p_default q = None) (drop (length (args ?st')) qs)"
        using dq dj Cons.IH by blast
      then show ?thesis using Nil Some by (simp add: Let_def)
    qed
  next
    case (Cons a rest)
    let ?st' = "st\<lparr>args_expected := args_expected st @ [doc_key q], args := rest,
                 handler_kwargs := dict_set (p_name q) (AToken a) (handler_kwargs st),
                 params := pop (p_name q) (params st)\<rparr>"
    have "params ?st' = kept @ qs" using popq by simp
    then have "params (bind_positional qs ?st')
        = kept @ filter (\<lambda>q. p_default q = None) (drop (length (args ?st')) qs)"
      using dq dj Cons.IH by blast
    then show ?thesis using Cons by (simp add: Let_def)
  qed
qed

lemma bind_named_undeclared: "\<not> declared k (params st) \<Longrightarrow> bind_named k v st = st"
  by (simp add: bind_named_def)

lemma bind_context_form:
  assumes "bind_context msg perms st0 = Inr st"
  shows "\<not> declared ''player'' (params st0) \<and>
         (\<exists>um cm. \<not> is_token um \<and> \<not> is_token cm \<and> st = context_bound msg perms um cm st0)"
proof -
  let ?st4 = "bind_named ''server'' (AServer (m_server msg))
               (bind_named ''author'' (AUser (m_author msg))
                 (bind_named ''channel'' (AChannel (m_channel msg))
                   (bind_named ''message'' (AMessage msg) st0)))"
  let ?st5 = "bind_named ''permissions'' (APermissions perms) ?st4"
  have np4: "\<not> declared ''player'' (params ?st4)"
    using assms by (simp add: bind_context_def Let_def split: if_splits)
  then have np: "\<not> declared ''player'' (params st0)"
    by (simp add: declared_pop)
  show ?thesis
  proof (cases "m_server msg")
    case None
    from assms np4 None have um: "\<not> declared ''user_mentions'' (params ?st5)"
      and cm: "\<not> declared ''channel_mentions'' (params ?st5)"
      and st: "st = bind_named ''leftover_args'' ArgsRef ?st5"
      by (simp_all add: bind_context_def Let_def split: if_splits)
    have "st = context_bound msg perms (AUsers []) (AChannels []) st0"
      unfolding context_bound_def
      using st um cm by (simp add: bind_named_undeclared)
    then show ?thesis using np by (intro conjI exI[of _ "AUsers []"] exI[of _ "AChannels []"]) simp_all
  next
    case (Some srv)
    from assms np4 Some have
      "st = context_bound msg perms (AUsers (map (get_member srv) (m_raw_mentions msg)))
              (AChannels (map (get_channel srv) (m_raw_channel_mentions msg))) st0"
      unfolding context_bound_def by (simp add: bind_context_def Let_def)
    then show ?thesis using np
      by (intro conjI exI[of _ "AUsers (map (get_member srv) (m_raw_mentions msg))"]
            exI[of _ "AChannels (map (get_channel srv) (m_raw_channel_mentions msg))"]) simp_all
  qed
qed

lemma context_bound_args [simp]: "args (context_bound msg perms um cm st0) = args st0"
  by (simp add: context_bound_def)

lemma context_bound_params:
  "\<not> declared ''player'' (params st0)
   \<Longrightarrow> params (context_bound msg perms um cm st0) = positional (params st0)"
  unfolding context_bound_def positional_def
  by (simp add: pop_def context_names_def declared_def) (rule filter_cong, simp, metis image_eqI)

lemma context_bound_keys:
  "fst ` set (handler_kwargs (context_bound msg perms um cm st0))
     \<subseteq> fst ` set (handler_kwargs st0) \<union> set context_names"
proof -
  have step: "\<And>k v st A. k \<in> A \<Longrightarrow> fst ` set (handler_kwargs st) \<subseteq> A
                \<Longrightarrow> fst ` set (handler_kwargs (bind_named k v st)) \<subseteq> A"
    using bind_named_keys by blast
  show ?thesis
    unfolding context_bound_def
    by (intro step) (auto simp: context_names_def)
qed

lemma context_bound_tokens:
  "\<not> is_token um \<Longrightarrow> \<not> is_token cm \<Longrightarrow> filter (is_token \<circ> snd) (handler_kwargs st0) = []
   \<Longrightarrow> filter (is_token \<circ> snd) (handler_kwargs (context_bound msg perms um cm st0)) = []"
  unfolding context_bound_def
  by (intro bind_named_tokens) simp_all

lemma context_bound_leftover:
  "declared ''leftover_args'' (params st0)
   \<Longrightarrow> map_of (handler_kwargs (context_bound msg perms um cm st0)) ''leftover_args'' = Some ArgsRef"
  unfolding context_bound_def
  by (simp add: bind_named_lookup declared_pop)

lemma filter_tokens_zip:
  "filter (is_token \<circ> snd) (zip ks (map AToken ts)) = zip ks (map AToken ts)"
  by (rule filter_True) (auto dest!: set_zip_rightD)

lemma positional_names: "q \<in> set (positional ps) \<Longrightarrow> p_name q \<notin> set context_names"
  by (simp add: positional_def)

lemma bind_params_summary:
  assumes b: "bind_params msg perms h args0 = Inr st"
      and d: "distinct (map p_name (h_params h))"
  shows "args st = drop (length (positional (h_params h))) args0"
    and "filter (is_token \<circ> snd) (handler_kwargs st)
           = zip (map p_name (positional (h_params h))) (map AToken args0)"
    and "params st = filter (\<lambda>q. p_default q = None) (drop (length args0) (positional (h_params h)))"
    and "declared ''leftover_args'' (h_params h)
           \<Longrightarrow> map_of (handler_kwargs st) ''leftover_args'' = Some ArgsRef"
proof -
  let ?st0 = "\<lparr>args = args0, handler_kwargs = [], params = h_params h, args_expected = []\<rparr>"
  let ?pos = "positional (h_params h)"
  from b obtain stc where c: "bind_context msg perms ?st0 = Inr stc"
    and st: "st = bind_positional (params stc) stc"
    by (auto simp: bind_params_def split: sum.splits)
  from bind_context_form[OF c] obtain um cm where np: "\<not> declared ''player'' (h_params h)"
    and tk: "\<not> is_token um" "\<not> is_token cm" and stc: "stc = context_bound msg perms um cm ?st0"
    by auto
  have pc: "params stc = ?pos" using stc np by (simp add: context_bound_params)
  have ac: "args stc = args0" using stc by simp
  have dp: "distinct (map p_name ?pos)" using d by (simp add: positional_def distinct_map_filter)
  have keys: "fst ` set (handler_kwargs stc) \<subseteq> set context_names"
    using context_bound_keys[of msg perms um cm ?st0] stc by simp
  have dj: "p_name ` set ?pos \<inter> fst ` set (handler_kwargs stc) = {}"
    using keys positional_names by blast
  have kw: "handler_kwargs st = handler_kwargs stc @ zip (map p_name ?pos) (map AToken args0)"
    using bind_positional_kwargs[OF dp, of stc] dj st pc ac by simp
  have tc: "filter (is_token \<circ> snd) (handler_kwargs stc) = []"
    using context_bound_tokens[OF tk, of ?st0 msg perms] stc by simp
  show "args st = drop (length ?pos) args0"
    using st pc ac by (simp add: bind_positional_args)
  show "filter (is_token \<circ> snd) (handler_kwargs st) = zip (map p_name ?pos) (map AToken args0)"
    using kw tc filter_tokens_zip by simp
  show "params st = filter (\<lambda>q. p_default q = None) (drop (length args0) ?pos)"
    using bind_positional_params[OF dp, of stc "[]"] st pc ac by simp
  show "map_of (handler_kwargs st) ''leftover_args'' = Some ArgsRef"
    if "declared ''leftover_args'' (h_params h)"
    using context_bound_leftover[of ?st0 msg perms um cm] that stc kw by simp
qed

section \<open>Lemmas on the invocation\<close>

lemma map_of_resolve:
  "map_of (resolve cur kw) k = map_option (deref cur) (map_of kw k)"
  by (induction kw) (auto simp: resolve_def)

lemma invoke_starts:
  "\<exists>evs. fst (invoke self msg command h st)
            = Invoked command (resolve (args st) (handler_kwargs st)) # evs"
proof -
  let ?kw = "resolve (args st) (handler_kwargs st)"
  obtain evs r where hr: "h_run h msg ?kw = (evs, r)" by (cases "h_run h msg ?kw")
  show ?thesis
  proof (cases r)
    case (Inl e)
    then show ?thesis using hr by (simp add: invoke_def)
  next
    case (Inr v)
    show ?thesis
    proof (cases v)
      case None
      then show ?thesis using hr Inr by (simp add: invoke_def)
    next
      case (Some response)
      obtain evs' r' where sr: "send_reply self msg response = (evs', r')"
        by (cases "send_reply self msg response")
      show ?thesis using hr Inr Some sr by (cases r') (simp_all add: invoke_def)
    qed
  qed
qed

lemma safe_send_sent:
  assumes "send_message self dest text = Inr sent"
  shows "safe_send_message self dest text expire_in also_delete quiet
           = (SendMessage dest text
                # (if truthy expire_in then [Scheduled sent expire_in] else [])
                @ (case also_delete of Some m \<Rightarrow> [Scheduled m expire_in] | None \<Rightarrow> []),
              Inr (Some sent))"
  using assms by (simp add: safe_send_message_def)

lemma safe_send_calls: "SendMessage dest text \<in> set (fst (safe_send_message self dest text expire_in also_delete quiet))"
  by (simp add: safe_send_message_def split: sum.splits)

lemma safe_send_no_invoke: "Invoked c kw \<notin> set (fst (safe_send_message self dest text expire_in also_delete quiet))"
  by (simp add: safe_send_message_def split: sum.splits option.splits)

lemma invoke_reply_trace:
  assumes "h_run h msg (resolve (args st) (handler_kwargs st)) = (evs, Inr (Some response))"
  shows "fst (invoke self msg command h st)
           = Invoked command (resolve (args st) (handler_kwargs st)) # evs
               @ fst (send_reply self msg response)"
proof -
  obtain evs' r' where sr: "send_reply self msg response = (evs', r')"
    by (cases "send_reply self msg response")
  show ?thesis using assms sr by (cases r') (simp_all add: invoke_def)
qed


section \<open>Lemmas on the dispatch\<close>

lemma fst_escaping [simp]: "fst (escaping r) = fst r"
  by (cases r) (auto simp: escaping_def split: sum.splits)

lemma fst_after_events [simp]: "fst (after_events evs r) = evs @ fst r"
  by (simp add: after_events_def)

lemma on_message_routed:
  assumes "route self msg = Inr (command, args0, h)"
  shows "fst (on_message self msg)
           = Printed (''[Command] '' @ uid (m_author msg) @ ''/'' @ uname (m_author msg)
                        @ '' ('' @ py_strip (m_content msg) @ '')'')
               # fst (dispatch self msg command args0 h)
               @ (case snd (dispatch self msg command args0 h) of
                    Inl e \<Rightarrow> fst (handle_exception self msg e)
                  | Inr u \<Rightarrow> [])"
  using assms
  by (cases "dispatch self msg command args0 h")
     (simp add: on_message_def split: sum.splits)

lemma handle_reported:
  assumes "reported e = Some (cls, text, expire)"
  shows "fst (handle_exception self msg e)
           = Printed (''<class 'musicbot.exceptions.'' @ cls @ '''>: '' @ text)
               # fst (safe_send_message self (m_channel msg) (''```'' @ nl @ text @ nl @ ''```'')
                       (if delete_messages (config self) then Some expire else None)
                       (if delete_invoking (config self) then Some msg else None)
                       False)"
  using assms by (simp add: handle_exception_def)

lemma dispatch_gate_fails:
  assumes "bind_params msg (for_user self (m_author msg)) h args0 = Inr st"
      and "permission_gate self msg (for_user self (m_author msg)) command = Some e"
  shows "dispatch self msg command args0 h = ([], Inl e)"
  using assms by (simp add: dispatch_def)

lemma dispatch_bind_fails:
  assumes "bind_params msg (for_user self (m_author msg)) h args0 = Inl e"
  shows "dispatch self msg command args0 h = ([], Inl e)"
  using assms by (simp add: dispatch_def)

lemma permission_failure_trace:
  assumes r: "route self msg = Inr (command, args0, h)"
      and d: "dispatch self msg command args0 h = ([], Inl (PermissionsError text 20))"
  shows "(\<forall>c kw. Invoked c kw \<notin> set (fst (on_message self msg)))
         \<and> SendMessage (m_channel msg) (''```'' @ nl @ text @ nl @ ''```'')
              \<in> set (fst (on_message self msg))"
proof -
  have "fst (on_message self msg)
          = Printed (''[Command] '' @ uid (m_author msg) @ ''/'' @ uname (m_author msg)
                        @ '' ('' @ py_strip (m_content msg) @ '')'')
            # Printed (''<class 'musicbot.exceptions.PermissionsError'>: '' @ text)
            # fst (safe_send_message self (m_channel msg) (''```'' @ nl @ text @ nl @ ''```'')
                       (if delete_messages (config self) then Some 20 else None)
                       (if delete_invoking (config self) then Some msg else None)
                       False)"
    using on_message_routed[OF r] d handle_reported[of "PermissionsError text 20"]
    by simp
  then show ?thesis using safe_send_calls safe_send_no_invoke by simp
qed

lemma bind_params_cong:
  "h_params h = h_params h' \<Longrightarrow> bind_params msg P h a = bind_params msg P h' a"
  by (simp add: bind_params_def)

lemma handle_no_invoke: "Invoked c kw \<notin> set (fst (handle_exception self msg e))"
  by (auto simp: handle_exception_def safe_send_no_invoke split: option.splits)


lemma dispatch_usage:
  assumes "bind_params msg (for_user self (m_author msg)) h args0 = Inr st"
      and "permission_gate self msg (for_user self (m_author msg)) command = None"
      and "params st \<noteq> []"
      and "py_format (usage_docs self command h st) (command_prefix (config self)) = Inr docs"
  shows "fst (dispatch self msg command args0 h)
           = fst (safe_send_message self (m_channel msg) (''```'' @ nl @ docs @ nl @ ''```'')
                    (Some 60) None False)"
proof -
  obtain evs r where s: "safe_send_message self (m_channel msg) (''```'' @ nl @ docs @ nl @ ''```'')
                    (Some 60) None False = (evs, r)"
    by (cases "safe_send_message self (m_channel msg) (''```'' @ nl @ docs @ nl @ ''```'')
                    (Some 60) None False")
  show ?thesis using assms s by (cases r) (simp_all add: dispatch_def)
qed

lemma usage_docs_cong:
  "h_doc h = h_doc h' \<Longrightarrow> usage_docs self c h st = usage_docs self c h' st"
  by (simp add: usage_docs_def)


section \<open>Lemmas on substrings and joined lists\<close>

lemma py_contains_empty: "py_contains s []"
  by (cases s) (simp_all add: startswith_def)

lemma startswith_append: "startswith s x \<Longrightarrow> startswith (s @ t) x"
proof -
  assume a: "startswith s x"
  then have "length (take (length x) s) = length x"
    by (simp only: startswith_def)
  then have "length x \<le> length s" by simp
  then show ?thesis using a by (simp add: startswith_def)
qed

lemma py_contains_append_right: "py_contains s x \<Longrightarrow> py_contains (s @ t) x"
proof (induction s)
  case Nil
  then show ?case by (simp add: py_contains_empty)
next
  case (Cons c cs)
  then show ?case using startswith_append[of "c # cs" x t] by auto
qed

lemma py_contains_append_left: "py_contains t x \<Longrightarrow> py_contains (s @ t) x"
  by (induction s) auto

lemma py_contains_self: "py_contains x x"
  by (cases x) (simp_all add: startswith_def)

lemma py_contains_middle: "py_contains (u @ x @ v) x"
  by (intro py_contains_append_left py_contains_append_right py_contains_self)

lemma py_join_member: "x \<in> set xs \<Longrightarrow> \<exists>u v. py_join sep xs = u @ x @ v"
proof (induction sep xs rule: py_join.induct)
  case (1 sep)
  then show ?case by simp
next
  case (2 sep y)
  then have "py_join sep [y] = [] @ x @ []" by simp
  then show ?case by blast
next
  case (3 sep y z zs)
  show ?case
  proof (cases "x = y")
    case True
    then have "py_join sep (y # z # zs) = [] @ x @ (sep @ py_join sep (z # zs))" by simp
    then show ?thesis by blast
  next
    case False
    with 3 obtain u v where "py_join sep (z # zs) = u @ x @ v" by auto
    then have "py_join sep (y # z # zs) = (y @ sep @ u) @ x @ v" by simp
    then show ?thesis by blast
  qed
qed

lemma py_contains_join:
  "x \<in> set xs \<Longrightarrow> py_contains (a @ py_join sep xs @ b) x"
proof -
  assume "x \<in> set xs"
  then obtain u v where "py_join sep xs = u @ x @ v" using py_join_member by blast
  then have "a @ py_join sep xs @ b = (a @ u) @ x @ (v @ b)" by simp
  then show ?thesis using py_contains_middle by metis
qed


section \<open>The permission gate\<close>

text \<open>
  Claim C1. A command message of an author other than the owner has reached the
  \<open>try\<close> block. If the parameter binding raises, that exception is the outcome: the
  gate comes after the binding. If the binding completes and the author's whitelist is
  not empty and lacks the command, the block raises the permissions failure with the
  whitelist message that names the group; if the whitelist check passes and the
  blacklist is not empty and holds the command, it raises the one with the blacklist
  message. In both cases no handler is called during the dispatch, and the message is
  sent to the channel in a code block.
\<close>

theorem permission_gate_before_invocation:
  assumes "route self msg = Inr (command, args0, h)"
      and "uid (m_author msg) \<noteq> owner_id (config self)"
  shows "(bind_params msg (for_user self (m_author msg)) h args0 = Inl e
            \<longrightarrow> dispatch self msg command args0 h = ([], Inl e))
       \<and> (bind_params msg (for_user self (m_author msg)) h args0 = Inr st
            \<and> command_whitelist (for_user self (m_author msg)) \<noteq> {}
            \<and> command \<notin> command_whitelist (for_user self (m_author msg))
          \<longrightarrow> dispatch self msg command args0 h
                = ([], Inl (PermissionsError
                       (''This command is not enabled for your group (''
                          @ name (for_user self (m_author msg)) @ '').'') 20))
              \<and> (\<forall>c kw. Invoked c kw \<notin> set (fst (on_message self msg)))
              \<and> SendMessage (m_channel msg)
                   (''```'' @ nl @ ''This command is not enabled for your group (''
                      @ name (for_user self (m_author msg)) @ '').'' @ nl @ ''```'')
                   \<in> set (fst (on_message self msg)))
       \<and> (bind_params msg (for_user self (m_author msg)) h args0 = Inr st
            \<and> \<not> (command_whitelist (for_user self (m_author msg)) \<noteq> {}
                   \<and> command \<notin> command_whitelist (for_user self (m_author msg)))
            \<and> command_blacklist (for_user self (m_author msg)) \<noteq> {}
            \<and> command \<in> command_blacklist (for_user self (m_author msg))
          \<longrightarrow> dispatch self msg command args0 h
                = ([], Inl (PermissionsError
                       (''This command is disabled for your group (''
                          @ name (for_user self (m_author msg)) @ '').'') 20))
              \<and> (\<forall>c kw. Invoked c kw \<notin> set (fst (on_message self msg)))
              \<and> SendMessage (m_channel msg)
                   (''```'' @ nl @ ''This command is disabled for your group (''
                      @ name (for_user self (m_author msg)) @ '').'' @ nl @ ''```'')
                   \<in> set (fst (on_message self msg)))"
proof (intro conjI impI)
  let ?P = "for_user self (m_author msg)"
  show "dispatch self msg command args0 h = ([], Inl e)"
    if "bind_params msg ?P h args0 = Inl e"
    using that by (rule dispatch_bind_fails)
  {
    assume a: "bind_params msg ?P h args0 = Inr st
            \<and> command_whitelist ?P \<noteq> {} \<and> command \<notin> command_whitelist ?P"
    let ?text = "''This command is not enabled for your group ('' @ name ?P @ '').''"
    have g: "permission_gate self msg ?P command = Some (PermissionsError ?text 20)"
      using a assms(2) by (simp add: permission_gate_def)
    have d: "dispatch self msg command args0 h = ([], Inl (PermissionsError ?text 20))"
      using a g by (simp add: dispatch_gate_fails)
    show "dispatch self msg command args0 h = ([], Inl (PermissionsError ?text 20))" by (rule d)
    show "\<forall>c kw. Invoked c kw \<notin> set (fst (on_message self msg))"
      using permission_failure_trace[OF assms(1) d] by simp
    show "SendMessage (m_channel msg)
            (''```'' @ nl @ ''This command is not enabled for your group ('' @ name ?P @ '').'' @ nl @ ''```'')
            \<in> set (fst (on_message self msg))"
      using permission_failure_trace[OF assms(1) d] by simp
  }
  {
    assume a: "bind_params msg ?P h args0 = Inr st
            \<and> \<not> (command_whitelist ?P \<noteq> {} \<and> command \<notin> command_whitelist ?P)
            \<and> command_blacklist ?P \<noteq> {} \<and> command \<in> command_blacklist ?P"
    let ?text = "''This command is disabled for your group ('' @ name ?P @ '').''"
    have g: "permission_gate self msg ?P command = Some (PermissionsError ?text 20)"
      using a assms(2) by (auto simp: permission_gate_def)
    have d: "dispatch self msg command args0 h = ([], Inl (PermissionsError ?text 20))"
      using a g by (simp add: dispatch_gate_fails)
    show "dispatch self msg command args0 h = ([], Inl (PermissionsError ?text 20))" by (rule d)
    show "\<forall>c kw. Invoked c kw \<notin> set (fst (on_message self msg))"
      using permission_failure_trace[OF assms(1) d] by simp
    show "SendMessage (m_channel msg)
            (''```'' @ nl @ ''This command is disabled for your group ('' @ name ?P @ '').'' @ nl @ ''```'')
            \<in> set (fst (on_message self msg))"
      using permission_failure_trace[OF assms(1) d] by simp
  }
qed


theorem permission_gate_before_invocation_witness:
  "(\<exists>h. route bot1 (msg0 ''!setname x'') = Inr (''setname'', [''x''], h))
   \<and> uid (m_author (msg0 ''!setname x'')) \<noteq> owner_id (config bot1)
   \<and> for_user bot1 (m_author (msg0 ''!setname x'')) = limited
   \<and> command_whitelist limited \<noteq> {} \<and> ''setname'' \<notin> command_whitelist limited
   \<and> (\<forall>c kw. Invoked c kw \<notin> set (fst (on_message bot1 (msg0 ''!setname x''))))
   \<and> SendMessage general
        (''```'' @ nl @ ''This command is not enabled for your group (Limited).'' @ nl @ ''```'')
        \<in> set (fst (on_message bot1 (msg0 ''!setname x'')))"
proof -
  let ?m = "msg0 ''!setname x''"
  have "map_sum id (\<lambda>(c, a, h). (c, a, h_params h)) (route bot1 ?m)
          = Inr (''setname'', [''x''], h_params (handler_setname bot0))"
    by code_simp
  then obtain h where r: "route bot1 ?m = Inr (''setname'', [''x''], h)"
    and hp: "h_params h = h_params (handler_setname bot0)"
    by (cases "route bot1 ?m") auto
  have o: "uid (m_author ?m) \<noteq> owner_id (config bot1)" by code_simp
  have P: "for_user bot1 (m_author ?m) = limited"
    by (simp add: bot1_def bot_with_def Let_def msg0_def msg_from_def alice_def)
  have w: "command_whitelist limited \<noteq> {}" "''setname'' \<notin> command_whitelist limited"
    by (simp_all add: limited_def)
  have "bind_params ?m limited (handler_setname bot0) [''x'']
          = Inr \<lparr>args = [], handler_kwargs = [(''leftover_args'', ArgsRef), (''name'', AToken ''x'')],
                 params = [], args_expected = [''name'']\<rparr>"
    by code_simp
  then have b: "bind_params ?m (for_user bot1 (m_author ?m)) h [''x'']
          = Inr \<lparr>args = [], handler_kwargs = [(''leftover_args'', ArgsRef), (''name'', AToken ''x'')],
                 params = [], args_expected = [''name'']\<rparr>"
    using bind_params_cong[OF hp] P by simp
  have g: "m_channel ?m = general" "name limited = ''Limited''"
    by (simp_all add: msg0_def msg_from_def limited_def)
  from permission_gate_before_invocation[OF r o] b P w g r o
  show ?thesis by auto
qed


section \<open>The usage text for a missing argument\<close>

text \<open>
  Claim C2, as amended. A command message has reached the \<open>try\<close> block, the binding
  has completed and the permission gate lets the message pass. If a positional parameter
  of the handler is left without a token and has no default, no handler is called during
  the dispatch, and the router sends to the channel, in a code block, the usage text
  with the command-prefix placeholder replaced, when that replacement succeeds. The
  usage text of a handler with a description is the description with every line stripped.
\<close>

theorem usage_sent_when_required_argument_missing:
  assumes "route self msg = Inr (command, args0, h)"
      and "bind_params msg (for_user self (m_author msg)) h args0 = Inr st"
      and "distinct (map p_name (h_params h))"
      and "\<exists>q \<in> set (drop (length args0) (positional (h_params h))). p_default q = None"
      and "permission_gate self msg (for_user self (m_author msg)) command = None"
      and "py_format (usage_docs self command h st) (command_prefix (config self)) = Inr docs"
  shows "(\<forall>c kw. Invoked c kw \<notin> set (fst (on_message self msg)))
         \<and> SendMessage (m_channel msg) (''```'' @ nl @ docs @ nl @ ''```'')
              \<in> set (fst (on_message self msg))
         \<and> (\<forall>d. h_doc h = Some d \<and> d \<noteq> []
                \<longrightarrow> usage_docs self command h st
                      = py_join nl (map py_strip (split_on CHR 0x0A [] d)))"
proof -
  have "params st = filter (\<lambda>q. p_default q = None) (drop (length args0) (positional (h_params h)))"
    using bind_params_summary(3)[OF assms(2,3)] .
  then have ne: "params st \<noteq> []"
    using assms(4) by (simp add: filter_empty_conv)
  let ?send = "safe_send_message self (m_channel msg) (''```'' @ nl @ docs @ nl @ ''```'')
                    (Some 60) None False"
  have d: "fst (dispatch self msg command args0 h) = fst ?send"
    using dispatch_usage[OF assms(2) assms(5) ne assms(6)] .
  have t: "fst (on_message self msg)
           = Printed (''[Command] '' @ uid (m_author msg) @ ''/'' @ uname (m_author msg)
                        @ '' ('' @ py_strip (m_content msg) @ '')'')
               # fst ?send
               @ (case snd (dispatch self msg command args0 h) of
                    Inl e \<Rightarrow> fst (handle_exception self msg e)
                  | Inr u \<Rightarrow> [])"
    using on_message_routed[OF assms(1)] d by simp
  have "\<forall>c kw. Invoked c kw \<notin> set (fst (on_message self msg))"
    unfolding t using safe_send_no_invoke handle_no_invoke
    by (auto split: sum.splits)
  moreover have "SendMessage (m_channel msg) (''```'' @ nl @ docs @ nl @ ''```'')
              \<in> set (fst (on_message self msg))"
    unfolding t using safe_send_calls by simp
  moreover have "\<forall>d. h_doc h = Some d \<and> d \<noteq> []
                \<longrightarrow> usage_docs self command h st
                      = py_join nl (map py_strip (split_on CHR 0x0A [] d))"
    by (simp add: usage_docs_def)
  ultimately show ?thesis by blast
qed


theorem usage_sent_when_required_argument_missing_witness:
  "(\<exists>h. route bot0 (msg0 ''!setname'') = Inr (''setname'', [], h))
   \<and> permission_gate bot0 (msg0 ''!setname'') (for_user bot0 (m_author (msg0 ''!setname''))) ''setname'' = None
   \<and> list_ex (\<lambda>q. p_default q = None) (positional (h_params (handler_setname bot0)))
   \<and> (\<forall>c kw. Invoked c kw \<notin> set (fst (on_message bot0 (msg0 ''!setname''))))
   \<and> SendMessage general
        (''```'' @ nl @ nl @ ''Usage:'' @ nl @ ''!setname name'' @ nl @ nl
           @ ''Changes the bot's username.'' @ nl
           @ ''Note: This operation is limited by discord to twice per hour.'' @ nl @ nl @ ''```'')
        \<in> set (fst (on_message bot0 (msg0 ''!setname'')))"
proof -
  let ?m = "msg0 ''!setname''"
  let ?st = "\<lparr>args = [], handler_kwargs = [(''leftover_args'', ArgsRef)],
              params = [\<lparr>p_name = ''name'', p_default = None\<rparr>], args_expected = [''name'']\<rparr>"
  let ?docs = "nl @ ''Usage:'' @ nl @ ''!setname name'' @ nl @ nl
           @ ''Changes the bot's username.'' @ nl
           @ ''Note: This operation is limited by discord to twice per hour.'' @ nl"
  have "map_sum id (\<lambda>(c, a, h). (c, a, h_params h, h_doc h)) (route bot0 ?m)
          = Inr (''setname'', [], h_params (handler_setname bot0), h_doc (handler_setname bot0))"
    by code_simp
  then obtain h where r: "route bot0 ?m = Inr (''setname'', [], h)"
    and hp: "h_params h = h_params (handler_setname bot0)"
    and hd: "h_doc h = h_doc (handler_setname bot0)"
    by (cases "route bot0 ?m") auto
  have "bind_params ?m (for_user bot0 (m_author ?m)) (handler_setname bot0) [] = Inr ?st"
    by code_simp
  then have b: "bind_params ?m (for_user bot0 (m_author ?m)) h [] = Inr ?st"
    using bind_params_cong[OF hp] by simp
  have d: "distinct (map p_name (h_params h))"
    unfolding hp by (simp add: handler_setname_def)
  have p: "positional (h_params h) = [\<lparr>p_name = ''name'', p_default = None\<rparr>]"
    unfolding hp by (simp add: handler_setname_def positional_def context_names_def)
  have q: "\<exists>q \<in> set (drop (length ([]::string list)) (positional (h_params h))). p_default q = None"
    using p by simp
  have g: "permission_gate bot0 ?m (for_user bot0 (m_author ?m)) ''setname'' = None"
    by code_simp
  have "py_format (usage_docs bot0 ''setname'' (handler_setname bot0) ?st)
          (command_prefix (config bot0)) = Inr ?docs"
    by code_simp
  then have f: "py_format (usage_docs bot0 ''setname'' h ?st) (command_prefix (config bot0)) = Inr ?docs"
    using usage_docs_cong[OF hd] by simp
  have c: "m_channel ?m = general" by (simp add: msg0_def msg_from_def)
  have l: "list_ex (\<lambda>q. p_default q = None) (positional (h_params (handler_setname bot0)))"
    using p unfolding hp by simp
  from usage_sent_when_required_argument_missing[OF r b d q g f] r g c l
  show ?thesis by auto
qed


text \<open>
  Claim C2 as stated fails where the permission gate rejects the message: the author is
  in a group whose whitelist lacks \<open>setname\<close> and sends \<open>!setname\<close> with no token
  for the required parameter \<open>name\<close>. The router answers with the permissions failure,
  and no usage text is sent.
\<close>

theorem usage_counterexample:
  "map_sum id (\<lambda>(c, a, h). (c, a, h_params h)) (route bot1 (msg0 ''!setname''))
     = Inr (''setname'', [],
            [\<lparr>p_name = ''leftover_args'', p_default = None\<rparr>,
             \<lparr>p_name = ''name'', p_default = None\<rparr>])
   \<and> on_message bot1 (msg0 ''!setname'')
     = ([Printed ''[Command] 200/alice (!setname)'',
         Printed ''<class 'musicbot.exceptions.PermissionsError'>: This command is not enabled for your group (Limited).'',
         SendMessage general
           (''```'' @ nl @ ''This command is not enabled for your group (Limited).'' @ nl @ ''```''),
         Scheduled
           (sent_message general
              (''```'' @ nl @ ''This command is not enabled for your group (Limited).'' @ nl @ ''```''))
           (Some 20)],
        None)"
  by code_simp


section \<open>Tokens are consumed from left to right\<close>

text \<open>
  Claim C3. When the binding of a dispatch completes, the token-valued entries of the
  keyword arguments, in the order they were stored, pair the handler's positional
  parameters, in declaration order, with the argument tokens, in message order: the
  i-th positional parameter holds the i-th token, so every bound token is held by
  exactly one parameter. The token list is left with the tokens behind the bound ones.
  The parameter names of a signature are distinct.
\<close>

theorem tokens_consumed_left_to_right:
  assumes "bind_params msg perms h args0 = Inr st"
      and "distinct (map p_name (h_params h))"
  shows "filter (is_token \<circ> snd) (handler_kwargs st)
           = zip (map p_name (positional (h_params h))) (map AToken args0)
         \<and> args st = drop (length (positional (h_params h))) args0"
  using bind_params_summary(1,2)[OF assms] by simp

theorem tokens_consumed_left_to_right_witness:
  "bind_params (msg0 ''!setname a b c'') everyone (handler_setname bot0) [''a'', ''b'', ''c'']
     = Inr \<lparr>args = [''b'', ''c''],
            handler_kwargs = [(''leftover_args'', ArgsRef), (''name'', AToken ''a'')],
            params = [], args_expected = [''name'']\<rparr>
   \<and> distinct (map p_name (h_params (handler_setname bot0)))
   \<and> filter (is_token \<circ> snd) [(''leftover_args'', ArgsRef), (''name'', AToken ''a'')]
        = zip (map p_name (positional (h_params (handler_setname bot0))))
              (map AToken [''a'', ''b'', ''c''])"
proof -
  have b: "bind_params (msg0 ''!setname a b c'') everyone (handler_setname bot0) [''a'', ''b'', ''c'']
     = Inr \<lparr>args = [''b'', ''c''],
            handler_kwargs = [(''leftover_args'', ArgsRef), (''name'', AToken ''a'')],
            params = [], args_expected = [''name'']\<rparr>"
    by code_simp
  have d: "distinct (map p_name (h_params (handler_setname bot0)))"
    by (simp add: handler_setname_def)
  have p: "positional (h_params (handler_setname bot0)) = [\<lparr>p_name = ''name'', p_default = None\<rparr>]"
    by (simp add: handler_setname_def positional_def context_names_def)
  from tokens_consumed_left_to_right[OF b d] b d p show ?thesis by simp
qed


section \<open>The checks before the dispatch\<close>

text \<open>
  Claim C4, as amended. \<open>on_message\<close> checks in this order. First, the author is a
  bot account: the message is dropped without a reply. Second, the stripped text does
  not start with the command prefix: the message takes the non-command path, which
  replies only when the text holds the bot's mention token. Third, the author is the
  bot itself: the message is dropped, with a line on the console and no reply. Fourth,
  a channel binding is configured, the channel is not in the bound set and is not a
  private channel: the message is dropped without a reply. Each check decides the
  outcome whatever the later checks would say.
\<close>

theorem preconditions_checked_in_order:
  "(ubot (m_author msg) \<longrightarrow> on_message self msg = ([], None))
   \<and> (\<not> ubot (m_author msg)
        \<and> \<not> startswith (py_strip (m_content msg)) (command_prefix (config self))
      \<longrightarrow> on_message self msg = non_command self msg (py_strip (m_content msg))
          \<and> (\<not> py_contains (py_strip (m_content msg)) bot_mention
                \<longrightarrow> on_message self msg = ([], None)))
   \<and> (\<not> ubot (m_author msg)
        \<and> startswith (py_strip (m_content msg)) (command_prefix (config self))
        \<and> uid (m_author msg) = uid (bot_user self)
      \<longrightarrow> on_message self msg
            = ([Printed (''Ignoring command from myself ('' @ m_content msg @ '')'')], None))
   \<and> (\<not> ubot (m_author msg)
        \<and> startswith (py_strip (m_content msg)) (command_prefix (config self))
        \<and> uid (m_author msg) \<noteq> uid (bot_user self)
        \<and> bound_channels (config self) \<noteq> {}
        \<and> cid (m_channel msg) \<notin> bound_channels (config self)
        \<and> \<not> is_private (m_channel msg)
      \<longrightarrow> on_message self msg = ([], None))"
  by (simp add: on_message_def route_def non_command_def Let_def)

theorem preconditions_checked_in_order_witness:
  "ubot (m_author (msg_from robo ''!roll''))
   \<and> on_message bot0 (msg_from robo ''!roll'') = ([], None)
   \<and> \<not> ubot (m_author (msg0 ''hello''))
   \<and> \<not> startswith (py_strip (m_content (msg0 ''hello''))) (command_prefix (config bot0))
   \<and> \<not> py_contains (py_strip (m_content (msg0 ''hello''))) bot_mention
   \<and> on_message bot0 (msg0 ''hello'') = ([], None)
   \<and> startswith (py_strip (m_content (msg_from kiyukii ''!roll''))) (command_prefix (config bot0))
   \<and> uid (m_author (msg_from kiyukii ''!roll'')) = uid (bot_user bot0)
   \<and> on_message bot0 (msg_from kiyukii ''!roll'')
       = ([Printed ''Ignoring command from myself (!roll)''], None)
   \<and> bound_channels (config bot3) \<noteq> {}
   \<and> cid (m_channel (msg0 ''!roll'')) \<notin> bound_channels (config bot3)
   \<and> on_message bot3 (msg0 ''!roll'') = ([], None)"
proof -
  have a: "ubot (m_author (msg_from robo ''!roll''))" by code_simp
  have b: "\<not> ubot (m_author (msg0 ''hello''))"
    "\<not> startswith (py_strip (m_content (msg0 ''hello''))) (command_prefix (config bot0))"
    "\<not> py_contains (py_strip (m_content (msg0 ''hello''))) bot_mention"
    by code_simp+
  have c: "\<not> ubot (m_author (msg_from kiyukii ''!roll''))"
    "startswith (py_strip (m_content (msg_from kiyukii ''!roll''))) (command_prefix (config bot0))"
    "uid (m_author (msg_from kiyukii ''!roll'')) = uid (bot_user bot0)"
    "m_content (msg_from kiyukii ''!roll'') = ''!roll''"
    by code_simp+
  have d: "\<not> ubot (m_author (msg0 ''!roll''))"
    "startswith (py_strip (m_content (msg0 ''!roll''))) (command_prefix (config bot3))"
    "uid (m_author (msg0 ''!roll'')) \<noteq> uid (bot_user bot3)"
    "bound_channels (config bot3) \<noteq> {}"
    "cid (m_channel (msg0 ''!roll'')) \<notin> bound_channels (config bot3)"
    "\<not> is_private (m_channel (msg0 ''!roll''))"
    by code_simp+
  have w1: "on_message bot0 (msg_from robo ''!roll'') = ([], None)"
    using preconditions_checked_in_order[of "msg_from robo ''!roll''" bot0] a by blast
  have w2: "on_message bot0 (msg0 ''hello'') = ([], None)"
    using preconditions_checked_in_order[of "msg0 ''hello''" bot0] b by blast
  have w3: "on_message bot0 (msg_from kiyukii ''!roll'')
       = ([Printed ''Ignoring command from myself (!roll)''], None)"
    using preconditions_checked_in_order[of "msg_from kiyukii ''!roll''" bot0] c by simp
  have w4: "on_message bot3 (msg0 ''!roll'') = ([], None)"
    using preconditions_checked_in_order[of "msg0 ''!roll''" bot3] d by blast
  show ?thesis using a b c(2,3) d(4,5) w1 w2 w3 w4 by blast
qed

text \<open>
  Claim C4 as stated fails for a bot that runs under a user account: a message of the
  bot itself that holds the mention token and does not start with the prefix is
  answered, because the test of the prefix comes before the test of the author being
  the bot.
\<close>

theorem precondition_order_counterexample:
  "uid (m_author (msg_from kiyukii ''hi <@193778484869332993>'')) = uid (bot_user bot0)
   \<and> on_message bot0 (msg_from kiyukii ''hi <@193778484869332993>'')
       = ([SendMessage general ''<@193778484869332993> Hello.''], None)"
  by code_simp


section \<open>The dice-roll command\<close>

text \<open>
  Claim C5 says that the dice-roll command given the token \<open>20\<close> answers a roll between
  1 and 20 with no correction notice, and given a non-numeric token the 1 to 6 fallback.
  The router folds the case of the keyword, so \<open>!Roll 20\<close> is a call of \<open>cmd_roll\<close> with
  the token \<open>20\<close>; the handler reads the number off the message text, from which it
  removes the prefix and \<open>roll\<close> in lower case only. What is left is not a number, and
  the answer is the 1 to 6 fallback with the correction notice, for every random draw.
  For the same reason \<open>!roll !roll5\<close>, whose token is not a number, is answered with a
  roll between 1 and 5 and no notice.
\<close>

theorem cmd_roll_ignores_keyword_case:
  "(\<exists>k. 1 \<le> k \<and> k \<le> 6 \<and>
        cmd_roll cfg0 (msg0 ''!Roll 20'') r
          = Inr \<lparr>content = ''I don't know what you wanted to roll. I rolled a 6-sided die instead'' @ nl
                            @ ''I rolled a **'' @ str_int k @ ''**'',
                 reply = False, delete_after = 20\<rparr>)
   \<and> map_sum id (\<lambda>(c, a, h). (c, a)) (route bot0 (msg0 ''!Roll 20'')) = Inr (''roll'', [''20''])
   \<and> on_message bot0 (msg0 ''!Roll 20'')
       = ([Printed ''[Command] 200/alice (!Roll 20)'',
           Invoked ''roll'' [(''message'', AMessage (msg0 ''!Roll 20''))],
           SendMessage general (''I don't know what you wanted to roll. I rolled a 6-sided die instead'' @ nl @ ''I rolled a **5**''),
           Scheduled (sent_message general (''I don't know what you wanted to roll. I rolled a 6-sided die instead'' @ nl @ ''I rolled a **5**'')) (Some 20)],
          None)
   \<and> (\<exists>k. 1 \<le> k \<and> k \<le> 5 \<and>
        cmd_roll cfg0 (msg0 ''!roll !roll5'') r
          = Inr \<lparr>content = ''I rolled a **'' @ str_int k @ ''**'',
                 reply = False, delete_after = 20\<rparr>)"
proof -
  obtain k6 where k6: "randint 1 6 r = Some k6" "1 \<le> k6" "k6 \<le> 6"
    using randint_range[of 1 6 r] by auto
  obtain k5 where k5: "randint 1 5 r = Some k5" "1 \<le> k5" "k5 \<le> 5"
    using randint_range[of 1 5 r] by auto
  have s: "py_int (py_strip (py_replace (command_prefix cfg0 @ ''roll'') [] (m_content (msg0 ''!Roll 20''))))
             = None"
    by code_simp
  have a: "\<exists>k. 1 \<le> k \<and> k \<le> 6 \<and>
        cmd_roll cfg0 (msg0 ''!Roll 20'') r
          = Inr \<lparr>content = ''I don't know what you wanted to roll. I rolled a 6-sided die instead'' @ nl
                            @ ''I rolled a **'' @ str_int k @ ''**'',
                 reply = False, delete_after = 20\<rparr>"
    by (rule exI[of _ k6])
       (simp add: cmd_roll_def s roll_fallback_def k6 roll_notice_def rolled_def Response_def)
  have b: "map_sum id (\<lambda>(c, a, h). (c, a)) (route bot0 (msg0 ''!Roll 20'')) = Inr (''roll'', [''20''])"
    by code_simp
  have c: "on_message bot0 (msg0 ''!Roll 20'')
       = ([Printed ''[Command] 200/alice (!Roll 20)'',
           Invoked ''roll'' [(''message'', AMessage (msg0 ''!Roll 20''))],
           SendMessage general (''I don't know what you wanted to roll. I rolled a 6-sided die instead'' @ nl @ ''I rolled a **5**''),
           Scheduled (sent_message general (''I don't know what you wanted to roll. I rolled a 6-sided die instead'' @ nl @ ''I rolled a **5**'')) (Some 20)],
          None)"
    by code_simp
  have t: "py_int (py_strip (py_replace (command_prefix cfg0 @ ''roll'') [] (m_content (msg0 ''!roll !roll5''))))
             = Some 5"
    by code_simp
  have d: "\<exists>k. 1 \<le> k \<and> k \<le> 5 \<and>
        cmd_roll cfg0 (msg0 ''!roll !roll5'') r
          = Inr \<lparr>content = ''I rolled a **'' @ str_int k @ ''**'',
                 reply = False, delete_after = 20\<rparr>"
    by (rule exI[of _ k5]) (simp add: cmd_roll_def t k5 rolled_def Response_def)
  from a b c d show ?thesis by blast
qed

text \<open>
  With the keyword in lower case, and a token that does not hold the invocation text,
  \<open>cmd_roll\<close> does what the claim says: for every prefix and every random draw, \<open>0\<close>
  gives a roll between 1 and 6 after the correction notice, \<open>2000\<close> a roll between 1 and
  1000 after the too-many-sides notice, a token without a decimal digit the 1 to 6
  fallback with its notice, and \<open>20\<close> a roll between 1 and 20 and nothing else.
\<close>

lemma cmd_roll_lower_case_keyword:
  "(\<exists>k. 1 \<le> k \<and> k \<le> 6 \<and>
        cmd_roll cfg (msg\<lparr>m_content := command_prefix cfg @ ''roll 0''\<rparr>) r
          = Inr \<lparr>content = ''I don't know what you wanted to roll. I rolled a 6-sided die instead'' @ nl
                            @ ''I rolled a **'' @ str_int k @ ''**'',
                 reply = False, delete_after = 20\<rparr>)
   \<and> (\<exists>k. 1 \<le> k \<and> k \<le> 1000 \<and>
        cmd_roll cfg (msg\<lparr>m_content := command_prefix cfg @ ''roll 2000''\<rparr>) r
          = Inr \<lparr>content = ''Too many sides. I rolled a 1000-sided die instead'' @ nl
                            @ ''I rolled a **'' @ str_int k @ ''**'',
                 reply = False, delete_after = 20\<rparr>)
   \<and> ((\<forall>c\<in>set tok. \<not> is_ascii_digit c) \<longrightarrow>
       (\<exists>k. 1 \<le> k \<and> k \<le> 6 \<and>
        cmd_roll cfg (msg\<lparr>m_content := command_prefix cfg @ ''roll '' @ tok\<rparr>) r
          = Inr \<lparr>content = ''I don't know what you wanted to roll. I rolled a 6-sided die instead'' @ nl
                            @ ''I rolled a **'' @ str_int k @ ''**'',
                 reply = False, delete_after = 20\<rparr>))
   \<and> (\<exists>k. 1 \<le> k \<and> k \<le> 20 \<and>
        cmd_roll cfg (msg\<lparr>m_content := command_prefix cfg @ ''roll 20''\<rparr>) r
          = Inr \<lparr>content = ''I rolled a **'' @ str_int k @ ''**'',
                 reply = False, delete_after = 20\<rparr>)"
proof -
  let ?p = "command_prefix cfg"
  obtain k6 where k6: "randint 1 6 r = Some k6" "1 \<le> k6" "k6 \<le> 6"
    using randint_range[of 1 6 r] by auto
  obtain k1000 where k1000: "randint 1 1000 r = Some k1000" "1 \<le> k1000" "k1000 \<le> 1000"
    using randint_range[of 1 1000 r] by auto
  obtain k20 where k20: "randint 1 20 r = Some k20" "1 \<le> k20" "k20 \<le> 20"
    using randint_range[of 1 20 r] by auto
  have s0: "py_replace (?p @ ''roll'') [] (?p @ ''roll 0'') = '' 0''"
    using roll_sides[of "'' 0''" ?p] by simp
  have s2000: "py_replace (?p @ ''roll'') [] (?p @ ''roll 2000'') = '' 2000''"
    using roll_sides[of "'' 2000''" ?p] by simp
  have s20: "py_replace (?p @ ''roll'') [] (?p @ ''roll 20'') = '' 20''"
    using roll_sides[of "'' 20''" ?p] by simp
  have c0: "\<exists>k. 1 \<le> k \<and> k \<le> 6 \<and>
        cmd_roll cfg (msg\<lparr>m_content := ?p @ ''roll 0''\<rparr>) r
          = Inr (Response (roll_notice @ rolled k) False 20)"
    by (rule exI[of _ k6]) (simp add: cmd_roll_def s0 roll_int_literals k6)
  have c2000: "\<exists>k. 1 \<le> k \<and> k \<le> 1000 \<and>
        cmd_roll cfg (msg\<lparr>m_content := ?p @ ''roll 2000''\<rparr>) r
          = Inr (Response (roll_too_many @ rolled k) False 20)"
    by (rule exI[of _ k1000]) (simp add: cmd_roll_def s2000 roll_int_literals k1000)
  have c20: "\<exists>k. 1 \<le> k \<and> k \<le> 20 \<and>
        cmd_roll cfg (msg\<lparr>m_content := ?p @ ''roll 20''\<rparr>) r
          = Inr (Response (rolled k) False 20)"
    by (rule exI[of _ k20]) (simp add: cmd_roll_def s20 roll_int_literals k20)
  have cno: "(\<forall>c\<in>set tok. \<not> is_ascii_digit c) \<longrightarrow>
       (\<exists>k. 1 \<le> k \<and> k \<le> 6 \<and>
        cmd_roll cfg (msg\<lparr>m_content := ?p @ ''roll '' @ tok\<rparr>) r
          = Inr (Response (roll_notice @ rolled k) False 20))"
  proof
    assume "\<forall>c\<in>set tok. \<not> is_ascii_digit c"
    from roll_no_digit[OF this, of ?p] have
      "py_int (py_strip (py_replace (?p @ ''roll'') [] (?p @ ''roll '' @ tok))) = None" .
    then show "\<exists>k. 1 \<le> k \<and> k \<le> 6 \<and>
        cmd_roll cfg (msg\<lparr>m_content := ?p @ ''roll '' @ tok\<rparr>) r
          = Inr (Response (roll_notice @ rolled k) False 20)"
      by (intro exI[of _ k6]) (simp add: cmd_roll_def roll_fallback_def k6)
  qed
  from c0 c2000 cno c20 show ?thesis
    by (simp add: roll_notice_def roll_too_many_def rolled_def Response_def)
qed


section \<open>Deletion of the reply\<close>

text \<open>
  Claim C6. A handler has returned a reply whose \<open>delete_after\<close> is positive, and the
  library has delivered it as the message \<open>sent\<close>, a message other than the invoking
  one. The trace of the invocation is the call, the handler's own events and the events
  of sending the reply. With \<open>delete_messages\<close> enabled these hold the deletion of
  \<open>sent\<close> after \<open>delete_after\<close>; with it disabled they hold no deletion of \<open>sent\<close>
  at all.
\<close>

theorem reply_deletion_follows_setting:
  assumes "h_run h msg (resolve (args st) (handler_kwargs st)) = (evs, Inr (Some response))"
      and "delete_after response > 0"
      and "send_message self (m_channel msg) (reply_text msg response) = Inr sent"
      and "sent \<noteq> msg"
  shows "fst (invoke self msg command h st)
           = Invoked command (resolve (args st) (handler_kwargs st)) # evs
               @ fst (send_reply self msg response)
         \<and> (delete_messages (config self) \<longrightarrow>
              Scheduled sent (Some (delete_after response)) \<in> set (fst (send_reply self msg response)))
         \<and> (\<not> delete_messages (config self) \<longrightarrow>
              (\<forall>after. Scheduled sent after \<notin> set (fst (send_reply self msg response))))"
proof -
  have t: "fst (send_reply self msg response)
      = SendMessage (m_channel msg) (reply_text msg response)
          # (if truthy (Some (if delete_messages (config self) then delete_after response else 0))
             then [Scheduled sent (Some (if delete_messages (config self) then delete_after response else 0))]
             else [])
          @ (case (if delete_invoking (config self) then Some msg else None) of
               Some m \<Rightarrow> [Scheduled m (Some (if delete_messages (config self) then delete_after response else 0))]
             | None \<Rightarrow> [])"
    unfolding send_reply_def by (simp add: safe_send_sent[OF assms(3)])
  show ?thesis
    using invoke_reply_trace[OF assms(1), of self command] assms(2,4)
    by (auto simp: t truthy_def)
qed

theorem reply_deletion_follows_setting_witness:
  "h_run (handler_roll bot0 4) (msg0 ''!roll 20'') [(''message'', AMessage (msg0 ''!roll 20''))]
     = ([], Inr (Some (Response ''I rolled a **5**'' False 20)))
   \<and> delete_after (Response ''I rolled a **5**'' False 20) > 0
   \<and> send_message bot0 general ''I rolled a **5**'' = Inr (sent_message general ''I rolled a **5**'')
   \<and> sent_message general ''I rolled a **5**'' \<noteq> msg0 ''!roll 20''
   \<and> delete_messages (config bot0)
   \<and> Scheduled (sent_message general ''I rolled a **5**'') (Some 20)
        \<in> set (fst (send_reply bot0 (msg0 ''!roll 20'') (Response ''I rolled a **5**'' False 20)))"
proof -
  let ?st = "\<lparr>args = [], handler_kwargs = [(''message'', AMessage (msg0 ''!roll 20''))],
              params = [], args_expected = []\<rparr>"
  let ?resp = "Response ''I rolled a **5**'' False 20"
  have r: "h_run (handler_roll bot0 4) (msg0 ''!roll 20'') (resolve (args ?st) (handler_kwargs ?st))
     = ([], Inr (Some ?resp))"
    by code_simp
  have d: "delete_after ?resp > 0" by (simp add: Response_def)
  have s: "send_message bot0 (m_channel (msg0 ''!roll 20'')) (reply_text (msg0 ''!roll 20'') ?resp)
             = Inr (sent_message general ''I rolled a **5**'')"
    by code_simp
  have n: "sent_message general ''I rolled a **5**'' \<noteq> msg0 ''!roll 20''"
    by (simp add: sent_message_def msg0_def msg_from_def)
  have c: "delete_messages (config bot0)" by code_simp
  have e: "resolve (args ?st) (handler_kwargs ?st) = [(''message'', AMessage (msg0 ''!roll 20''))]"
    by (simp add: resolve_def)
  have g: "m_channel (msg0 ''!roll 20'') = general" "reply_text (msg0 ''!roll 20'') ?resp = ''I rolled a **5**''"
    by (simp_all add: msg0_def msg_from_def reply_text_def Response_def)
  have f: "delete_after ?resp = 20" by (simp add: Response_def)
  from reply_deletion_follows_setting[OF r d s n, of "''roll''"] r d s n c e g f
  show ?thesis by simp
qed


section \<open>A malformed number given to \<open>xkcd\<close>\<close>

text \<open>
  Claim C7 says that a non-numeric token does not leave a handler as an exception. For
  \<open>cmd_xkcd\<close> it does: on \<open>!xkcd abc\<close> the second \<open>elif\<close> evaluates \<open>int(query)\<close>
  before the branch that tests \<open>query.isdigit()\<close> is reached, whatever the site would
  answer and whatever the random draw. The router calls the handler, gets the
  \<open>ValueError\<close>, prints the traceback, and sends nothing.
\<close>

theorem xkcd_malformed_number_escapes:
  "cmd_xkcd cfg0 fetch (msg0 ''!xkcd abc'') r = Inl ValueError
   \<and> on_message bot0 (msg0 ''!xkcd abc'')
       = ([Printed ''[Command] 200/alice (!xkcd abc)'',
           Invoked ''xkcd'' [(''message'', AMessage (msg0 ''!xkcd abc''))],
           PrintedTraceback ValueError],
          None)"
proof -
  have q: "py_strip (py_replace (command_prefix cfg0 @ ''xkcd'') [] (m_content (msg0 ''!xkcd abc'')))
             = ''abc''"
    by code_simp
  have i: "\<not> py_isdigit ''abc''" "py_int ''abc'' = None" by code_simp+
  have "cmd_xkcd cfg0 fetch (msg0 ''!xkcd abc'') r = Inl ValueError"
    by (simp add: cmd_xkcd_def q i)
  moreover have "on_message bot0 (msg0 ''!xkcd abc'')
       = ([Printed ''[Command] 200/alice (!xkcd abc)'',
           Invoked ''xkcd'' [(''message'', AMessage (msg0 ''!xkcd abc''))],
           PrintedTraceback ValueError],
          None)"
    by code_simp
  ultimately show ?thesis by simp
qed


section \<open>The help command\<close>

text \<open>
  Claim C8, as amended. Without an argument the help command returns a reply, addressed
  to the author, whose text lists the command prefix followed by the keyword for every
  attribute of the bot named \<open>cmd_...\<close> other than \<open>cmd_help\<close> itself, and nothing
  else between its fixed first and last lines.
\<close>

theorem help_lists_commands_except_itself:
  "(\<forall>att \<in> set (dir_self self). startswith att ''cmd_'' \<and> att \<noteq> ''cmd_help''
        \<longrightarrow> (\<exists>resp. cmd_help self None = Inr resp \<and> reply resp
              \<and> py_contains (content resp)
                    (command_prefix (config self) @ py_lower (py_replace ''cmd_'' [] att))))
   \<and> (\<exists>resp. cmd_help self None = Inr resp
          \<and> content resp = ''my commands are'' @ nl @ ''```''
                @ py_join '', ''
                    (map (\<lambda>att. command_prefix (config self) @ py_lower (py_replace ''cmd_'' [] att))
                       (filter (\<lambda>att. startswith att ''cmd_'' \<and> att \<noteq> ''cmd_help'') (dir_self self)))
                @ nl @ nl @ ''@me to talk to me!```'')"
proof (intro conjI ballI impI)
  let ?resp = "Response (''my commands are'' @ nl @ ''```'' @ py_join '', '' (help_commands self)
                           @ nl @ nl @ ''@me to talk to me!```'') True 60"
  have r: "cmd_help self None = Inr ?resp" by (simp add: cmd_help_def)
  show "\<exists>resp. cmd_help self None = Inr resp
          \<and> content resp = ''my commands are'' @ nl @ ''```''
                @ py_join '', ''
                    (map (\<lambda>att. command_prefix (config self) @ py_lower (py_replace ''cmd_'' [] att))
                       (filter (\<lambda>att. startswith att ''cmd_'' \<and> att \<noteq> ''cmd_help'') (dir_self self)))
                @ nl @ nl @ ''@me to talk to me!```''"
    using r by (simp add: Response_def help_commands_def)
  show "\<exists>resp. cmd_help self None = Inr resp \<and> reply resp
              \<and> py_contains (content resp)
                    (command_prefix (config self) @ py_lower (py_replace ''cmd_'' [] att))"
    if "att \<in> set (dir_self self)" and "startswith att ''cmd_'' \<and> att \<noteq> ''cmd_help''" for att
  proof -
    have "command_prefix (config self) @ py_lower (py_replace ''cmd_'' [] att)
            \<in> set (help_commands self)"
      using that by (auto simp: help_commands_def)
    then have "py_contains ((''my commands are'' @ nl @ ''```'') @ py_join '', '' (help_commands self)
                           @ (nl @ nl @ ''@me to talk to me!```''))
                 (command_prefix (config self) @ py_lower (py_replace ''cmd_'' [] att))"
      by (rule py_contains_join)
    then have "py_contains (content ?resp)
                 (command_prefix (config self) @ py_lower (py_replace ''cmd_'' [] att))"
      by (simp add: Response_def)
    moreover have "reply ?resp" by (simp add: Response_def)
    ultimately show ?thesis using r by blast
  qed
qed


theorem help_lists_commands_except_itself_witness:
  "''cmd_roll'' \<in> set (dir_self bot0) \<and> startswith ''cmd_roll'' ''cmd_''
   \<and> ''cmd_roll'' \<noteq> ''cmd_help''
   \<and> (\<exists>resp. cmd_help bot0 None = Inr resp \<and> reply resp \<and> py_contains (content resp) ''!roll'')"
proof -
  have a: "''cmd_roll'' \<in> set (dir_self bot0)" "startswith ''cmd_roll'' ''cmd_''"
    "''cmd_roll'' \<noteq> ''cmd_help''"
    by code_simp+
  have k: "command_prefix (config bot0) @ py_lower (py_replace ''cmd_'' [] ''cmd_roll'') = ''!roll''"
    by code_simp
  from help_lists_commands_except_itself[of bot0] a k
  have "\<exists>resp. cmd_help bot0 None = Inr resp \<and> reply resp
                      \<and> py_contains (content resp) ''!roll''"
    by (metis (no_types, lifting))
  then show ?thesis using a by blast
qed

text \<open>
  Claim C8 as stated fails on the help command itself: \<open>cmd_help\<close> follows the naming
  convention, and the loop leaves it out of the list.
\<close>

theorem help_enumeration_counterexample:
  "''cmd_help'' \<in> set (dir_self bot0) \<and> startswith ''cmd_help'' ''cmd_''
   \<and> cmd_help bot0 None
       = Inr (Response (''my commands are'' @ nl
                @ ''```!8ball, !cat, !choice, !clean, !coinflip, !dot, !game, !honk, !kiyu, !listids, !penguin, !perms, !restart, !roll, !say, !setavatar, !setname, !setnick, !shutdown, !timer, !tsun, !urban, !xkcd''
                @ nl @ nl @ ''@me to talk to me!```'') True 60)
   \<and> \<not> py_contains (''my commands are'' @ nl
                @ ''```!8ball, !cat, !choice, !clean, !coinflip, !dot, !game, !honk, !kiyu, !listids, !penguin, !perms, !restart, !roll, !say, !setavatar, !setname, !setnick, !shutdown, !timer, !tsun, !urban, !xkcd''
                @ nl @ nl @ ''@me to talk to me!```'') ''!help''"
  by code_simp


section \<open>\<open>leftover_args\<close> is the list the tokens are popped from\<close>

text \<open>
  Claim C9. For a handler that declares \<open>leftover_args\<close>, the keyword arguments hold
  a reference to the token list itself, and the handler is called with what that list
  holds when the binding is over: the tokens behind those bound to the positional
  parameters. With a positional parameter and a token present, this is not the full
  token list of the message.
\<close>

theorem leftover_args_is_the_popped_list:
  assumes "bind_params msg perms h args0 = Inr st"
      and "distinct (map p_name (h_params h))"
      and "declared ''leftover_args'' (h_params h)"
  shows "map_of (handler_kwargs st) ''leftover_args'' = Some ArgsRef
         \<and> (\<exists>evs. fst (invoke self msg command h st)
                     = Invoked command (resolve (args st) (handler_kwargs st)) # evs)
         \<and> map_of (resolve (args st) (handler_kwargs st)) ''leftover_args''
             = Some (ATokens (drop (length (positional (h_params h))) args0))
         \<and> (positional (h_params h) \<noteq> [] \<and> args0 \<noteq> []
              \<longrightarrow> drop (length (positional (h_params h))) args0 \<noteq> args0)"
proof -
  have r: "map_of (handler_kwargs st) ''leftover_args'' = Some ArgsRef"
    using bind_params_summary(4)[OF assms(1,2)] assms(3) by simp
  have a: "args st = drop (length (positional (h_params h))) args0"
    using bind_params_summary(1)[OF assms(1,2)] .
  have "positional (h_params h) \<noteq> [] \<and> args0 \<noteq> []
              \<longrightarrow> drop (length (positional (h_params h))) args0 \<noteq> args0"
  proof
    assume h: "positional (h_params h) \<noteq> [] \<and> args0 \<noteq> []"
    then have "length (drop (length (positional (h_params h))) args0) < length args0" by simp
    then show "drop (length (positional (h_params h))) args0 \<noteq> args0"
      by (metis less_irrefl_nat)
  qed
  then show ?thesis using r a invoke_starts[of self msg command h st]
    by (simp add: map_of_resolve)
qed

theorem leftover_args_is_the_popped_list_witness:
  "bind_params (msg_from olivia ''!setname a b c'') everyone (handler_setname bot0) [''a'', ''b'', ''c'']
     = Inr \<lparr>args = [''b'', ''c''],
            handler_kwargs = [(''leftover_args'', ArgsRef), (''name'', AToken ''a'')],
            params = [], args_expected = [''name'']\<rparr>
   \<and> distinct (map p_name (h_params (handler_setname bot0)))
   \<and> declared ''leftover_args'' (h_params (handler_setname bot0))
   \<and> map_of (resolve [''b'', ''c''] [(''leftover_args'', ArgsRef), (''name'', AToken ''a'')])
        ''leftover_args'' = Some (ATokens [''b'', ''c''])
   \<and> positional (h_params (handler_setname bot0)) \<noteq> []"
proof -
  have b: "bind_params (msg_from olivia ''!setname a b c'') everyone (handler_setname bot0) [''a'', ''b'', ''c'']
     = Inr \<lparr>args = [''b'', ''c''],
            handler_kwargs = [(''leftover_args'', ArgsRef), (''name'', AToken ''a'')],
            params = [], args_expected = [''name'']\<rparr>"
    by code_simp
  have d: "distinct (map p_name (h_params (handler_setname bot0)))"
    by (simp add: handler_setname_def)
  have l: "declared ''leftover_args'' (h_params (handler_setname bot0))"
    by (simp add: handler_setname_def declared_def)
  have p: "positional (h_params (handler_setname bot0)) = [\<lparr>p_name = ''name'', p_default = None\<rparr>]"
    by (simp add: handler_setname_def positional_def context_names_def)
  from leftover_args_is_the_popped_list[OF b d l, of bot0 "''setname''"] b d l p
  show ?thesis by simp
qed


section \<open>Deletion of the invoking message\<close>

text \<open>
  Claim C10. With \<open>delete_invoking\<close> enabled and the reply delivered, sending the reply
  schedules the deletion of the invoking message after the delay passed as
  \<open>expire_in\<close>: the reply's \<open>delete_after\<close> when \<open>delete_messages\<close> is enabled and
  zero when it is disabled. \<open>safe_send_message\<close> schedules the deletion of
  \<open>also_delete\<close> whatever \<open>expire_in\<close> is.
\<close>

theorem invoking_message_scheduled_with_reply_delay:
  assumes "delete_invoking (config self)"
      and "send_message self (m_channel msg) (reply_text msg response) = Inr sent"
  shows "Scheduled msg (Some (if delete_messages (config self) then delete_after response else 0))
           \<in> set (fst (send_reply self msg response))
         \<and> (\<not> delete_messages (config self) \<longrightarrow>
              Scheduled msg (Some 0) \<in> set (fst (send_reply self msg response)))
         \<and> Scheduled msg expire_in
              \<in> set (fst (safe_send_message self (m_channel msg) (reply_text msg response)
                             expire_in (Some msg) quiet))"
  using assms by (simp add: send_reply_def safe_send_sent[OF assms(2)])

theorem invoking_message_scheduled_with_reply_delay_witness:
  "delete_invoking (config bot2) \<and> \<not> delete_messages (config bot2)
   \<and> send_message bot2 general ''I rolled a **5**'' = Inr (sent_message general ''I rolled a **5**'')
   \<and> fst (send_reply bot2 (msg0 ''!roll 20'') (Response ''I rolled a **5**'' False 20))
        = [SendMessage general ''I rolled a **5**'', Scheduled (msg0 ''!roll 20'') (Some 0)]
   \<and> Scheduled (msg0 ''!roll 20'') (Some 0)
        \<in> set (fst (send_reply bot2 (msg0 ''!roll 20'') (Response ''I rolled a **5**'' False 20)))"
proof -
  let ?resp = "Response ''I rolled a **5**'' False 20"
  have c: "delete_invoking (config bot2)" "\<not> delete_messages (config bot2)" by code_simp+
  have s: "send_message bot2 (m_channel (msg0 ''!roll 20'')) (reply_text (msg0 ''!roll 20'') ?resp)
             = Inr (sent_message general ''I rolled a **5**'')"
    by code_simp
  have g: "m_channel (msg0 ''!roll 20'') = general" "reply_text (msg0 ''!roll 20'') ?resp = ''I rolled a **5**''"
    by (simp_all add: msg0_def msg_from_def reply_text_def Response_def)
  have t: "fst (send_reply bot2 (msg0 ''!roll 20'') ?resp)
        = [SendMessage general ''I rolled a **5**'', Scheduled (msg0 ''!roll 20'') (Some 0)]"
    by code_simp
  from invoking_message_scheduled_with_reply_delay[OF c(1) s, of "Some 0" False] c s g t
  show ?thesis by simp
qed


end
